theory Spec2Isabelle
  imports Complex_Main
begin

section \<open>Poster creator: tiling and page layout\<close>

text \<open>
  The repository holds three versions of the component \<^verbatim>\<open>PosterCreator\<close>, each with
  its own \<^verbatim>\<open>generatePreview\<close> and \<^verbatim>\<open>generatePDF\<close>:
  \<^item> the \<^emph>\<open>basic\<close> version (\<^verbatim>\<open>src/unnamed/part_001\<close>): margin 10, default jsPDF page,
    file name \<^verbatim>\<open>poster-<h>x<v>.pdf\<close>;
  \<^item> the \<^emph>\<open>guides\<close> version (\<^verbatim>\<open>src/unnamed/part_000\<close>, lines 43 to 549): margin 15, a
    header of 25 mm, optional crop marks and centre lines;
  \<^item> the \<^emph>\<open>centered\<close> version (\<^verbatim>\<open>src/unnamed/part_000\<close>, from line 550): margin 5,
    the image centred on both axes.
  \<^verbatim>\<open>generatePreview\<close> is the same text in all three.

  JavaScript numbers are modelled exactly: grid counts, pixel sizes and loop counters
  as \<^typ>\<open>int\<close>, every quotient as \<^typ>\<open>real\<close>. Rounding of IEEE doubles is not
  modelled. A division by zero (\<^verbatim>\<open>Infinity\<close> or \<^verbatim>\<open>NaN\<close> in JavaScript) is \<open>0\<close> in HOL;
  no theorem below rests on the value of such a quotient: a theorem about piece sizes
  assumes a positive grid or speaks of the pieces only (there is none when a grid
  dimension is \<open>0\<close>), and a theorem about the layout takes the aspect ratio as it is.
\<close>

subsection \<open>Data model\<close>

record GridConfig =
  horizontal :: int
  vertical :: int

text \<open>\<^verbatim>\<open>ImageData\<close>: the fields \<^verbatim>\<open>file\<close> and \<^verbatim>\<open>url\<close> are opaque handles and are left out.\<close>

record ImageData =
  width :: int
  height :: int

datatype PaperFormat = A4 | Letter | A3 | Tabloid

datatype Orientation = Portrait | Landscape

record PaperConfig =
  paperWidth :: real
  paperHeight :: real
  paperName :: string

fun PAPER_FORMATS :: "PaperFormat \<Rightarrow> PaperConfig" where
  "PAPER_FORMATS A4 = \<lparr>paperWidth = 210, paperHeight = 297, paperName = ''A4''\<rparr>"
| "PAPER_FORMATS Letter = \<lparr>paperWidth = 216, paperHeight = 279, paperName = ''Carta (Letter)''\<rparr>"
| "PAPER_FORMATS A3 = \<lparr>paperWidth = 297, paperHeight = 420, paperName = ''A3''\<rparr>"
| "PAPER_FORMATS Tabloid = \<lparr>paperWidth = 279, paperHeight = 432, paperName = ''Tabloid''\<rparr>"

text \<open>The string values of the TypeScript types \<^verbatim>\<open>PaperFormat\<close> and \<^verbatim>\<open>Orientation\<close>.\<close>

fun formatId :: "PaperFormat \<Rightarrow> string" where
  "formatId A4 = ''a4''"
| "formatId Letter = ''letter''"
| "formatId A3 = ''a3''"
| "formatId Tabloid = ''tabloid''"

fun orientationId :: "Orientation \<Rightarrow> string" where
  "orientationId Portrait = ''portrait''"
| "orientationId Landscape = ''landscape''"

text \<open>
  A preview piece. In the source a piece is the PNG data URL of the canvas after one
  \<^verbatim>\<open>drawImage\<close>; the model keeps what determines that picture: the source rectangle
  passed to \<^verbatim>\<open>drawImage\<close>, the size of the canvas when \<^verbatim>\<open>toDataURL\<close> ran, and the loop
  counters \<^verbatim>\<open>row\<close> and \<^verbatim>\<open>col\<close> of the iteration that pushed it.
\<close>

record Piece =
  pieceRow :: int
  pieceCol :: int
  srcX :: real
  srcY :: real
  srcW :: real
  srcH :: real
  rasterW :: nat
  rasterH :: nat

record Canvas =
  canvasWidth :: nat
  canvasHeight :: nat

datatype Message = PreviewGenerated | NeedPreviewFirst | PdfGenerated

datatype Toast = ToastSuccess Message | ToastError Message

text \<open>
  The React state of the component. \<open>canvasReady\<close> stands for
  \<^verbatim>\<open>canvasRef.current\<close> and its 2d context both being present; \<open>toasts\<close> is the log of
  notifications raised so far.
\<close>

record State =
  imageData :: "ImageData option"
  canvasReady :: bool
  gridConfig :: GridConfig
  previewData :: "Piece list"
  paperFormat :: PaperFormat
  orientation :: Orientation
  showGuideLines :: bool
  toasts :: "Toast list"

subsection \<open>Grid input\<close>

text \<open>
  The two number inputs store \<^verbatim>\<open>parseInt(e.target.value) || 1\<close>. \<^verbatim>\<open>parseInt\<close> is a
  built-in; its result is the input of the model: \<open>NaN\<close> or an integer. The operator
  \<^verbatim>\<open>||\<close> takes its right operand when the left one is falsy, that is \<open>NaN\<close> or \<open>0\<close>.
\<close>

datatype Parsed = NaN | Num int

fun orOne :: "Parsed \<Rightarrow> int" where
  "orOne NaN = 1"
| "orOne (Num n) = (if n = 0 then 1 else n)"

definition onChangeHorizontal :: "Parsed \<Rightarrow> State \<Rightarrow> State" where
  "onChangeHorizontal p st = st\<lparr>gridConfig := (gridConfig st)\<lparr>horizontal := orOne p\<rparr>\<rparr>"

definition onChangeVertical :: "Parsed \<Rightarrow> State \<Rightarrow> State" where
  "onChangeVertical p st = st\<lparr>gridConfig := (gridConfig st)\<lparr>vertical := orOne p\<rparr>\<rparr>"

subsection \<open>generatePreview\<close>

text \<open>
  The body of the inner loop: \<^verbatim>\<open>drawImage(img, col * pieceWidth, row * pieceHeight,
  pieceWidth, pieceHeight, 0, 0, pieceWidth, pieceHeight)\<close> followed by
  \<^verbatim>\<open>pieces.push(canvas.toDataURL('image/png'))\<close>. The \<^verbatim>\<open>clearRect\<close> before it wipes
  the canvas and leaves its size alone; the destination rectangle is the same for every
  piece. Neither is part of a piece.
\<close>

definition drawPiece :: "Canvas \<Rightarrow> real \<Rightarrow> real \<Rightarrow> int \<Rightarrow> int \<Rightarrow> Piece" where
  "drawPiece canvas pieceWidth pieceHeight row col =
     \<lparr>pieceRow = row, pieceCol = col,
      srcX = real_of_int col * pieceWidth, srcY = real_of_int row * pieceHeight,
      srcW = pieceWidth, srcH = pieceHeight,
      rasterW = canvasWidth canvas, rasterH = canvasHeight canvas\<rparr>"

text \<open>\<^verbatim>\<open>for (let col = 0; col < totalCols; col++)\<close>\<close>

function colLoop :: "(int \<Rightarrow> Piece) \<Rightarrow> int \<Rightarrow> int \<Rightarrow> Piece list \<Rightarrow> Piece list" where
  "colLoop body totalCols col pieces =
     (if col < totalCols then colLoop body totalCols (col + 1) (pieces @ [body col])
      else pieces)"
  by pat_completeness auto
termination
  by (relation "measure (\<lambda>(body, totalCols, col, pieces). nat (totalCols - col))") auto

text \<open>\<^verbatim>\<open>for (let row = 0; row < totalRows; row++)\<close>\<close>

function rowLoop :: "(int \<Rightarrow> int \<Rightarrow> Piece) \<Rightarrow> int \<Rightarrow> int \<Rightarrow> int \<Rightarrow> Piece list \<Rightarrow> Piece list" where
  "rowLoop body totalRows totalCols row pieces =
     (if row < totalRows
      then rowLoop body totalRows totalCols (row + 1) (colLoop (body row) totalCols 0 pieces)
      else pieces)"
  by pat_completeness auto
termination
  by (relation "measure (\<lambda>(body, totalRows, totalCols, row, pieces). nat (totalRows - row))") auto

declare colLoop.simps [simp del] rowLoop.simps [simp del]

text \<open>
  The partition step (after the guards and the image decode). \<open>px\<close> is the conversion
  the browser applies when a number is assigned to \<^verbatim>\<open>canvas.width\<close> or
  \<^verbatim>\<open>canvas.height\<close> (an \<^verbatim>\<open>unsigned long\<close>); it is a parameter of the model. The canvas is
  sized once, before the loops.
\<close>

definition partitionStep :: "(real \<Rightarrow> nat) \<Rightarrow> ImageData \<Rightarrow> GridConfig \<Rightarrow> Piece list" where
  "partitionStep px img grid =
     (let totalCols = horizontal grid;
          totalRows = vertical grid;
          pieceWidth = real_of_int (width img) / real_of_int totalCols;
          pieceHeight = real_of_int (height img) / real_of_int totalRows;
          canvas = \<lparr>canvasWidth = px pieceWidth, canvasHeight = px pieceHeight\<rparr>
      in rowLoop (drawPiece canvas pieceWidth pieceHeight) totalRows totalCols 0 [])"

text \<open>
  \<^verbatim>\<open>generatePreview\<close>: the two early \<^verbatim>\<open>return\<close>s leave the state as it is and raise no
  notification. The model covers the run in which the image decode completes.
\<close>

definition generatePreview :: "(real \<Rightarrow> nat) \<Rightarrow> State \<Rightarrow> State" where
  "generatePreview px st =
     (case imageData st of
        None \<Rightarrow> st
      | Some img \<Rightarrow>
          if \<not> canvasReady st then st
          else st\<lparr>previewData := partitionStep px img (gridConfig st),
                  toasts := toasts st @ [ToastSuccess PreviewGenerated]\<rparr>)"

subsection \<open>The jsPDF document\<close>

text \<open>
  jsPDF is a library outside the repository. The model keeps the pages of the document,
  each the list of what was drawn on it, in drawing order. A new document has one
  empty page; \<^verbatim>\<open>addPage\<close> appends an empty page, which becomes the current one; every
  drawing call goes to the current (last) page. Calls that only set a style
  (\<^verbatim>\<open>setFontSize\<close>, \<^verbatim>\<open>setTextColor\<close>, \<^verbatim>\<open>setDrawColor\<close>, \<^verbatim>\<open>setLineWidth\<close>) are left out.
  The texts are kept by their template and its arguments.
\<close>

datatype Caption =
    PageOfTotal int nat
  | GridInfo "(int \<times> int) option" string Orientation
  | Instructions "(int \<times> int) option"
  | PageFraction int nat
  | CellLabel "(int \<times> int) option"

datatype DrawOp =
    TextOp Caption real real
  | AddImage Piece real real real real
  | RectOp real real real real
  | LineOp real real real real

type_synonym Pdf = "DrawOp list list"

definition newPdf :: Pdf where
  "newPdf = [[]]"

definition addPage :: "Pdf \<Rightarrow> Pdf" where
  "addPage pdf = pdf @ [[]]"

definition draw :: "DrawOp list \<Rightarrow> Pdf \<Rightarrow> Pdf" where
  "draw ops pdf = (if pdf = [] then [] else butlast pdf @ [last pdf @ ops])"

text \<open>
  Modelled from the spec: the page size jsPDF reports for
  \<^verbatim>\<open>new jsPDF({orientation, unit: 'mm', format: [width, height]})\<close>, which is library code:
  ``if orientation is landscape, swap paper width/height; else use as cataloged''.
  The result is (pageWidth, pageHeight) in millimetres.
\<close>

definition pageSize :: "PaperConfig \<Rightarrow> Orientation \<Rightarrow> real \<times> real" where
  "pageSize paperConfig ori =
     (if ori = Landscape then (paperHeight paperConfig, paperWidth paperConfig)
      else (paperWidth paperConfig, paperHeight paperConfig))"

text \<open>
  Library and browser behaviour, outside the repository: a canvas of width or height 0
  has no pixels, \<^verbatim>\<open>toDataURL\<close> then returns \<^verbatim>\<open>data:,\<close>, and \<^verbatim>\<open>pdf.addImage\<close> throws on such
  an image. \<^verbatim>\<open>generatePDF\<close> has no \<^verbatim>\<open>try\<close>, so the exception leaves it at once: \<^verbatim>\<open>pdf.save\<close>
  and the success notification are not reached. Other limits of the browser on the size
  of a canvas are not modelled.
\<close>

definition emptyRaster :: "Piece \<Rightarrow> bool" where
  "emptyRaster p \<longleftrightarrow> rasterW p = 0 \<or> rasterH p = 0"

text \<open>\<^verbatim>\<open>pdf.addImage(imgData, 'PNG', x, y, imgWidth, imgHeight)\<close>: \<open>None\<close> when it throws.\<close>

definition addImage :: "Piece \<Rightarrow> real \<Rightarrow> real \<Rightarrow> real \<Rightarrow> real \<Rightarrow> DrawOp option" where
  "addImage imgData x y w h =
     (if emptyRaster imgData then None else Some (AddImage imgData x y w h))"

text \<open>What \<^verbatim>\<open>generatePDF\<close> hands to the caller: nothing, a thrown \<^verbatim>\<open>TypeError\<close> (the
  non-null assertion \<^verbatim>\<open>imageData!\<close> on an absent image), the exception thrown by
  \<^verbatim>\<open>pdf.addImage\<close>, or the saved document with its file name.\<close>

datatype Export = NoPreview | TypeError | ImageError | Saved Pdf string

text \<open>The image placement of one page: \<open>x\<close>, \<open>y\<close>, \<open>imgWidth\<close>, \<open>imgHeight\<close>.\<close>

record Placement =
  imgX :: real
  imgY :: real
  imgWidth :: real
  imgHeight :: real

text \<open>Reading an export: the file name, the pages, and the images and the captions drawn
  on a page.\<close>

fun savedName :: "Export \<Rightarrow> string option" where
  "savedName (Saved pdf name) = Some name"
| "savedName NoPreview = None"
| "savedName TypeError = None"
| "savedName ImageError = None"

fun savedPages :: "Export \<Rightarrow> Pdf" where
  "savedPages (Saved pdf name) = pdf"
| "savedPages NoPreview = []"
| "savedPages TypeError = []"
| "savedPages ImageError = []"

fun imagesOf :: "DrawOp list \<Rightarrow> (Piece \<times> Placement) list" where
  "imagesOf [] = []"
| "imagesOf (AddImage imgData x y w h # ops) =
     (imgData, \<lparr>imgX = x, imgY = y, imgWidth = w, imgHeight = h\<rparr>) # imagesOf ops"
| "imagesOf (TextOp c x y # ops) = imagesOf ops"
| "imagesOf (RectOp x y w h # ops) = imagesOf ops"
| "imagesOf (LineOp x1 y1 x2 y2 # ops) = imagesOf ops"

fun captionsOf :: "DrawOp list \<Rightarrow> Caption list" where
  "captionsOf [] = []"
| "captionsOf (TextOp c x y # ops) = c # captionsOf ops"
| "captionsOf (AddImage imgData x y w h # ops) = captionsOf ops"
| "captionsOf (RectOp x y w h # ops) = captionsOf ops"
| "captionsOf (LineOp x1 y1 x2 y2 # ops) = captionsOf ops"

subsection \<open>generatePDF: shared parts\<close>

text \<open>\<^verbatim>\<open>imageData!.width / gridConfig.horizontal / (imageData!.height / gridConfig.vertical)\<close>\<close>

definition aspectRatio :: "ImageData \<Rightarrow> GridConfig \<Rightarrow> real" where
  "aspectRatio img grid =
     real_of_int (width img) / real_of_int (horizontal grid)
       / (real_of_int (height img) / real_of_int (vertical grid))"

text \<open>
  \<^verbatim>\<open>col = i % totalCols; row = Math.floor(i / totalCols)\<close> for a page index \<open>i \<ge> 0\<close>. The
  remainder of JavaScript has the sign of the dividend. With \<open>totalCols = 0\<close> JavaScript
  yields \<open>NaN\<close> (and \<open>Infinity\<close>), here \<open>None\<close>; the grid inputs never store \<open>0\<close>.
\<close>

definition gridPos :: "nat \<Rightarrow> int \<Rightarrow> (int \<times> int) option" where
  "gridPos i totalCols =
     (if totalCols = 0 then None
      else Some (int i mod \<bar>totalCols\<bar>, \<lfloor>real i / real_of_int totalCols\<rfloor>))"

text \<open>\<^verbatim>\<open>col + 1\<close>, \<^verbatim>\<open>row + 1\<close> as printed in the captions.\<close>

definition plusOne :: "(int \<times> int) option \<Rightarrow> (int \<times> int) option" where
  "plusOne pos = map_option (\<lambda>(col, row). (col + 1, row + 1)) pos"

text \<open>
  \<^verbatim>\<open>for (let i = 0; i < previewData.length; i++) { if (i > 0) pdf.addPage(); ... }\<close>
  with the drawing calls of one iteration given by \<open>body i previewData[i]\<close>, which is
  \<open>None\<close> when \<^verbatim>\<open>pdf.addImage\<close> throws in that iteration; the loop, and the document with
  it, is then abandoned.
\<close>

function pageLoop ::
  "(nat \<Rightarrow> Piece \<Rightarrow> DrawOp list option) \<Rightarrow> Piece list \<Rightarrow> nat \<Rightarrow> Pdf \<Rightarrow> Pdf option" where
  "pageLoop body pd i pdf =
     (if i < length pd
      then (case body i (pd ! i) of
              None \<Rightarrow> None
            | Some ops \<Rightarrow> pageLoop body pd (i + 1) (draw ops (if i > 0 then addPage pdf else pdf)))
      else Some pdf)"
  by pat_completeness auto
termination
  by (relation "measure (\<lambda>(body, pd, i, pdf). length pd - i)") auto

declare pageLoop.simps [simp del]

text \<open>
  Template literals print a number in decimal: the string of an integer of absolute
  value below \<open>10\<^sup>2\<^sup>1\<close>. Larger ones are printed with an exponent, which is not modelled:
  every theorem about a file name bounds the grid counts accordingly.
\<close>

definition digitChar :: "nat \<Rightarrow> char" where
  "digitChar d = ''0123456789'' ! d"

function showNat :: "nat \<Rightarrow> string" where
  "showNat n = (if n < 10 then [digitChar n] else showNat (n div 10) @ [digitChar (n mod 10)])"
  by pat_completeness auto
termination
  by (relation "measure (\<lambda>n. n)") auto

declare showNat.simps [simp del]

definition showInt :: "int \<Rightarrow> string" where
  "showInt n = (if n < 0 then ''-'' @ showNat (nat (- n)) else showNat (nat n))"

subsection \<open>generatePDF, guides version\<close>


definition placementGuides :: "real \<Rightarrow> real \<Rightarrow> real \<Rightarrow> Placement" where
  "placementGuides pageWidth pageHeight ar =
     (let margin = 15;
          maxWidth = pageWidth - 2 * margin;
          maxHeight = pageHeight - 2 * margin;
          availableHeight = maxHeight - 25;
          (w, h) = (if ar > maxWidth / availableHeight
                    then (maxWidth, maxWidth / ar)
                    else (availableHeight * ar, availableHeight))
      in \<lparr>imgX = (pageWidth - w) / 2, imgY = margin + 15, imgWidth = w, imgHeight = h\<rparr>)"

definition guideOps :: "real \<Rightarrow> real \<Rightarrow> Placement \<Rightarrow> DrawOp list" where
  "guideOps pageWidth pageHeight p =
     (let x = imgX p; y = imgY p; w = imgWidth p; h = imgHeight p
      in [RectOp (x - 3) (y - 3) (w + 6) (h + 6),
          LineOp (x - 8) (y - 3) (x - 3) (y - 3),
          LineOp (x - 3) (y - 8) (x - 3) (y - 3),
          LineOp (x + w + 3) (y - 8) (x + w + 3) (y - 3),
          LineOp (x + w + 3) (y - 3) (x + w + 8) (y - 3),
          LineOp (x - 8) (y + h + 3) (x - 3) (y + h + 3),
          LineOp (x - 3) (y + h + 3) (x - 3) (y + h + 8),
          LineOp (x + w + 3) (y + h + 3) (x + w + 8) (y + h + 3),
          LineOp (x + w + 3) (y + h + 8) (x + w + 3) (y + h + 3),
          LineOp (pageWidth / 2) (y - 5) (pageWidth / 2) (y + h + 5),
          LineOp (x - 5) (pageHeight / 2) (x + w + 5) (pageHeight / 2)])"

definition pageGuides ::
  "State \<Rightarrow> ImageData \<Rightarrow> real \<Rightarrow> real \<Rightarrow> nat \<Rightarrow> Piece \<Rightarrow> DrawOp list option" where
  "pageGuides st img pageWidth pageHeight i imgData =
     (let margin = 15;
          pos = gridPos i (horizontal (gridConfig st));
          p = placementGuides pageWidth pageHeight (aspectRatio img (gridConfig st))
      in case addImage imgData (imgX p) (imgY p) (imgWidth p) (imgHeight p) of
           None \<Rightarrow> None
         | Some drawn \<Rightarrow>
             Some ([TextOp (PageOfTotal (int i + 1) (length (previewData st))) margin (margin - 5),
                    TextOp (GridInfo (plusOne pos) (paperName (PAPER_FORMATS (paperFormat st)))
                              (orientation st))
                      (pageWidth - 60) (margin - 5),
                    drawn]
                   @ (if showGuideLines st then guideOps pageWidth pageHeight p else [])
                   @ [TextOp (Instructions (plusOne pos)) (pageWidth / 2) (pageHeight - 5)]))"

definition fileNameFull :: "State \<Rightarrow> string" where
  "fileNameFull st =
     ''poster-'' @ showInt (horizontal (gridConfig st)) @ ''x'' @ showInt (vertical (gridConfig st))
       @ ''-'' @ formatId (paperFormat st) @ ''-'' @ orientationId (orientation st) @ ''.pdf''"

definition generatePDF_guides :: "State \<Rightarrow> State \<times> Export" where
  "generatePDF_guides st =
     (if previewData st = [] then (st\<lparr>toasts := toasts st @ [ToastError NeedPreviewFirst]\<rparr>, NoPreview)
      else case imageData st of
        None \<Rightarrow> (st, TypeError)
      | Some img \<Rightarrow>
          (let (pageWidth, pageHeight) = pageSize (PAPER_FORMATS (paperFormat st)) (orientation st)
           in case pageLoop (pageGuides st img pageWidth pageHeight) (previewData st) 0 newPdf of
                None \<Rightarrow> (st, ImageError)
              | Some pdf \<Rightarrow>
                  (st\<lparr>toasts := toasts st @ [ToastSuccess PdfGenerated]\<rparr>,
                   Saved pdf (fileNameFull st))))"

subsection \<open>generatePDF, centered version\<close>

definition placementCentered :: "real \<Rightarrow> real \<Rightarrow> real \<Rightarrow> Placement" where
  "placementCentered pageWidth pageHeight ar =
     (let margin = 5;
          maxWidth = pageWidth - 2 * margin;
          maxHeight = pageHeight - 2 * margin;
          (w, h) = (if ar > maxWidth / maxHeight
                    then (maxWidth, maxWidth / ar)
                    else (maxHeight * ar, maxHeight))
      in \<lparr>imgX = (pageWidth - w) / 2, imgY = (pageHeight - h) / 2, imgWidth = w, imgHeight = h\<rparr>)"

definition pageCentered ::
  "State \<Rightarrow> ImageData \<Rightarrow> real \<Rightarrow> real \<Rightarrow> nat \<Rightarrow> Piece \<Rightarrow> DrawOp list option" where
  "pageCentered st img pageWidth pageHeight i imgData =
     (let pos = gridPos i (horizontal (gridConfig st));
          p = placementCentered pageWidth pageHeight (aspectRatio img (gridConfig st))
      in case addImage imgData (imgX p) (imgY p) (imgWidth p) (imgHeight p) of
           None \<Rightarrow> None
         | Some drawn \<Rightarrow>
             Some [drawn,
                   TextOp (PageFraction (int i + 1) (length (previewData st))) (pageWidth - 15) 10,
                   TextOp (CellLabel (plusOne pos)) (pageWidth - 15) 18])"

definition generatePDF_centered :: "State \<Rightarrow> State \<times> Export" where
  "generatePDF_centered st =
     (if previewData st = [] then (st\<lparr>toasts := toasts st @ [ToastError NeedPreviewFirst]\<rparr>, NoPreview)
      else case imageData st of
        None \<Rightarrow> (st, TypeError)
      | Some img \<Rightarrow>
          (let (pageWidth, pageHeight) = pageSize (PAPER_FORMATS (paperFormat st)) (orientation st)
           in case pageLoop (pageCentered st img pageWidth pageHeight) (previewData st) 0 newPdf of
                None \<Rightarrow> (st, ImageError)
              | Some pdf \<Rightarrow>
                  (st\<lparr>toasts := toasts st @ [ToastSuccess PdfGenerated]\<rparr>,
                   Saved pdf (fileNameFull st))))"

subsection \<open>generatePDF, basic version\<close>

text \<open>
  The basic version creates the document with \<^verbatim>\<open>new jsPDF()\<close>; the page size of that
  default document is a parameter (\<open>pageWidth\<close>, \<open>pageHeight\<close>) of the model. The state
  fields \<open>paperFormat\<close>, \<open>orientation\<close> and \<open>showGuideLines\<close> do not exist in this version
  and are not read.
\<close>

definition placementBasic :: "real \<Rightarrow> real \<Rightarrow> real \<Rightarrow> Placement" where
  "placementBasic pageWidth pageHeight ar =
     (let margin = 10;
          maxWidth = pageWidth - 2 * margin;
          maxHeight = pageHeight - 2 * margin;
          (w, h) = (if ar > maxWidth / maxHeight
                    then (maxWidth, maxWidth / ar)
                    else ((maxHeight - 20) * ar, maxHeight - 20))
      in \<lparr>imgX = (pageWidth - w) / 2, imgY = margin + 20, imgWidth = w, imgHeight = h\<rparr>)"

definition pageBasic ::
  "State \<Rightarrow> ImageData \<Rightarrow> real \<Rightarrow> real \<Rightarrow> nat \<Rightarrow> Piece \<Rightarrow> DrawOp list option" where
  "pageBasic st img pageWidth pageHeight i imgData =
     (let margin = 10;
          p = placementBasic pageWidth pageHeight (aspectRatio img (gridConfig st))
      in case addImage imgData (imgX p) (imgY p) (imgWidth p) (imgHeight p) of
           None \<Rightarrow> None
         | Some drawn \<Rightarrow>
             Some [TextOp (PageOfTotal (int i + 1) (length (previewData st))) margin margin,
                   drawn,
                   RectOp (imgX p - 2) (imgY p - 2) (imgWidth p + 4) (imgHeight p + 4)])"

definition fileNameBasic :: "State \<Rightarrow> string" where
  "fileNameBasic st =
     ''poster-'' @ showInt (horizontal (gridConfig st)) @ ''x'' @ showInt (vertical (gridConfig st))
       @ ''.pdf''"

definition generatePDF_basic :: "real \<Rightarrow> real \<Rightarrow> State \<Rightarrow> State \<times> Export" where
  "generatePDF_basic pageWidth pageHeight st =
     (if previewData st = [] then (st\<lparr>toasts := toasts st @ [ToastError NeedPreviewFirst]\<rparr>, NoPreview)
      else case imageData st of
        None \<Rightarrow> (st, TypeError)
      | Some img \<Rightarrow>
          (case pageLoop (pageBasic st img pageWidth pageHeight) (previewData st) 0 newPdf of
             None \<Rightarrow> (st, ImageError)
           | Some pdf \<Rightarrow>
               (st\<lparr>toasts := toasts st @ [ToastSuccess PdfGenerated]\<rparr>,
                Saved pdf (fileNameBasic st))))"

subsection \<open>Rectangles and example inputs\<close>

text \<open>The half-open source rectangle of a piece: \<open>[srcX, srcX + srcW) \<times> [srcY, srcY + srcH)\<close>.\<close>

definition inRect :: "Piece \<Rightarrow> real \<Rightarrow> real \<Rightarrow> bool" where
  "inRect p x y \<longleftrightarrow> srcX p \<le> x \<and> x < srcX p + srcW p \<and> srcY p \<le> y \<and> y < srcY p + srcH p"

text \<open>One conversion to whole pixels, used in the examples: truncation.\<close>

definition truncPx :: "real \<Rightarrow> nat" where
  "truncPx x = nat \<lfloor>x\<rfloor>"

text \<open>A state with a 1000 x 500 image loaded and a grid of 2 columns and 1 row.\<close>

definition exampleState :: State where
  "exampleState =
     \<lparr>imageData = Some \<lparr>width = 1000, height = 500\<rparr>, canvasReady = True,
      gridConfig = \<lparr>horizontal = 2, vertical = 1\<rparr>, previewData = [],
      paperFormat = A4, orientation = Portrait, showGuideLines = True, toasts = []\<rparr>"

section \<open>The loops as list comprehensions\<close>

text \<open>
  The three loops are characterised once; every later proof about the pieces or the
  pages goes through these equations.
\<close>

lemma colLoop_eq:
  "colLoop body totalCols col pieces =
     pieces @ map (\<lambda>k. body (col + int k)) [0..<nat (totalCols - col)]"
proof (induction body totalCols col pieces rule: colLoop.induct)
  case (1 body totalCols col pieces)
  show ?case
  proof (cases "col < totalCols")
    case True
    then have n: "nat (totalCols - col) = Suc (nat (totalCols - (col + 1)))"
      by simp
    have m: "map (\<lambda>k. body (col + int k)) [0..<Suc j] = body col # map (\<lambda>k. body (col + 1 + int k)) [0..<j]" for j
      unfolding upt_conv_Cons [OF zero_less_Suc] map_Suc_upt [symmetric]
      by (simp add: comp_def add.commute add.left_commute del: upt_Suc)
    have "colLoop body totalCols col pieces = colLoop body totalCols (col + 1) (pieces @ [body col])"
      using True by (simp add: colLoop.simps [of body totalCols col])
    also have "\<dots> = (pieces @ [body col]) @ map (\<lambda>k. body (col + 1 + int k)) [0..<nat (totalCols - (col + 1))]"
      using 1 True by simp
    also have "\<dots> = pieces @ map (\<lambda>k. body (col + int k)) [0..<nat (totalCols - col)]"
      unfolding n m by simp
    finally show ?thesis .
  next
    case False
    then show ?thesis by (simp add: colLoop.simps [of body totalCols col])
  qed
qed



lemma concat_rows:
  assumes "0 < c"
  shows "concat (map (\<lambda>r. map (f r) [0..<c]) [0..<n]) = map (\<lambda>i. f (i div c) (i mod c)) [0..<n * c]"
proof (induction n)
  case 0
  then show ?case by simp
next
  case (Suc n)
  have a: "Suc n * c = n * c + c"
    by simp
  have b: "[0..<n * c + c] = [0..<n * c] @ [n * c..<n * c + c]"
    by (rule upt_add_eq_append) simp
  have d: "[n * c..<n * c + c] = map (\<lambda>j. j + n * c) [0..<c]"
    using map_add_upt [of "n * c" c] by (simp only: add.commute)
  have e: "map (\<lambda>i. f (i div c) (i mod c)) (map (\<lambda>j. j + n * c) [0..<c]) = map (f n) [0..<c]"
    unfolding map_map by (rule map_cong [OF refl]) (simp add: assms)
  have "concat (map (\<lambda>r. map (f r) [0..<c]) [0..<Suc n]) =
          concat (map (\<lambda>r. map (f r) [0..<c]) [0..<n]) @ map (f n) [0..<c]"
    by simp
  also have "\<dots> = map (\<lambda>i. f (i div c) (i mod c)) [0..<n * c] @ map (f n) [0..<c]"
    by (simp only: Suc.IH)
  also have "\<dots> = map (\<lambda>i. f (i div c) (i mod c)) ([0..<n * c] @ [n * c..<n * c + c])"
    by (simp only: map_append d e)
  also have "\<dots> = map (\<lambda>i. f (i div c) (i mod c)) [0..<Suc n * c]"
    by (simp only: a b)
  finally show ?case .
qed


lemma rowLoop_eq:
  "rowLoop body totalRows totalCols row pieces =
     pieces @ concat (map (\<lambda>k. map (\<lambda>j. body (row + int k) (int j)) [0..<nat totalCols])
                          [0..<nat (totalRows - row)])"
proof (induction body totalRows totalCols row pieces rule: rowLoop.induct)
  case (1 body totalRows totalCols row pieces)
  let ?line = "\<lambda>r. map (\<lambda>j. body r (int j)) [0..<nat totalCols]"
  show ?case
  proof (cases "row < totalRows")
    case True
    then have n: "nat (totalRows - row) = Suc (nat (totalRows - (row + 1)))"
      by simp
    have m: "map (\<lambda>k. ?line (row + int k)) [0..<Suc j] = ?line row # map (\<lambda>k. ?line (row + 1 + int k)) [0..<j]" for j
      unfolding upt_conv_Cons [OF zero_less_Suc] map_Suc_upt [symmetric]
      by (simp add: comp_def add.commute add.left_commute del: upt_Suc)
    have "rowLoop body totalRows totalCols row pieces =
            rowLoop body totalRows totalCols (row + 1) (colLoop (body row) totalCols 0 pieces)"
      using True by (simp add: rowLoop.simps [of body totalRows totalCols row])
    also have "\<dots> = colLoop (body row) totalCols 0 pieces @
        concat (map (\<lambda>k. ?line (row + 1 + int k)) [0..<nat (totalRows - (row + 1))])"
      using 1 True by simp
    also have "\<dots> = pieces @ concat (map (\<lambda>k. ?line (row + int k)) [0..<nat (totalRows - row)])"
      unfolding n m colLoop_eq by simp
    finally show ?thesis .
  next
    case False
    then show ?thesis by (simp add: rowLoop.simps [of body totalRows totalCols row])
  qed
qed

lemma partitionStep_empty:
  assumes "horizontal grid \<le> 0 \<or> vertical grid \<le> 0"
  shows "partitionStep px img grid = []"
  using assms by (auto simp: partitionStep_def Let_def rowLoop_eq)

lemma partitionStep_eq:
  assumes "0 < horizontal grid"
  shows "partitionStep px img grid =
     map (\<lambda>i. drawPiece
                 \<lparr>canvasWidth = px (real_of_int (width img) / real_of_int (horizontal grid)),
                  canvasHeight = px (real_of_int (height img) / real_of_int (vertical grid))\<rparr>
                 (real_of_int (width img) / real_of_int (horizontal grid))
                 (real_of_int (height img) / real_of_int (vertical grid))
                 (int (i div nat (horizontal grid))) (int (i mod nat (horizontal grid))))
         [0..<nat (vertical grid) * nat (horizontal grid)]"
proof -
  have c: "0 < nat (horizontal grid)"
    using assms by simp
  show ?thesis
    unfolding partitionStep_def Let_def rowLoop_eq
    using concat_rows [OF c, of "\<lambda>r j. drawPiece
                 \<lparr>canvasWidth = px (real_of_int (width img) / real_of_int (horizontal grid)),
                  canvasHeight = px (real_of_int (height img) / real_of_int (vertical grid))\<rparr>
                 (real_of_int (width img) / real_of_int (horizontal grid))
                 (real_of_int (height img) / real_of_int (vertical grid)) (int r) (int j)" "nat (vertical grid)"]
    by simp
qed

lemma pageLoop_from:
  assumes "0 < i" "i \<le> length pd" "\<forall>k<length pd. body k (pd ! k) \<noteq> None"
  shows "pageLoop body pd i (map (\<lambda>k. the (body k (pd ! k))) [0..<i])
           = Some (map (\<lambda>k. the (body k (pd ! k))) [0..<length pd])"
  using assms(1,2)
proof (induction "length pd - i" arbitrary: i)
  case 0
  then have "i = length pd" by simp
  then show ?case by (simp add: pageLoop.simps [of body pd "length pd"])
next
  case (Suc n)
  then have lt: "i < length pd" by simp
  obtain ops where ops: "body i (pd ! i) = Some ops"
    using assms(3) lt by auto
  have "draw ops (addPage (map (\<lambda>k. the (body k (pd ! k))) [0..<i])) =
          map (\<lambda>k. the (body k (pd ! k))) [0..<Suc i]"
    by (simp add: draw_def addPage_def ops)
  then have "pageLoop body pd i (map (\<lambda>k. the (body k (pd ! k))) [0..<i]) =
          pageLoop body pd (Suc i) (map (\<lambda>k. the (body k (pd ! k))) [0..<Suc i])"
    using lt Suc.prems by (simp add: pageLoop.simps [of body pd i] ops)
  also have "\<dots> = Some (map (\<lambda>k. the (body k (pd ! k))) [0..<length pd])"
    using Suc lt by (intro Suc.hyps(1)) auto
  finally show ?case .
qed

lemma pageLoop_eq:
  assumes "pd \<noteq> []" "\<forall>k<length pd. body k (pd ! k) \<noteq> None"
  shows "pageLoop body pd 0 newPdf = Some (map (\<lambda>k. the (body k (pd ! k))) [0..<length pd])"
proof -
  obtain ops where ops: "body 0 (pd ! 0) = Some ops"
    using assms by auto
  have "pageLoop body pd 0 newPdf = pageLoop body pd 1 (map (\<lambda>k. the (body k (pd ! k))) [0..<1])"
    using assms(1) by (simp add: pageLoop.simps [of body pd 0] newPdf_def draw_def ops)
  also have "\<dots> = Some (map (\<lambda>k. the (body k (pd ! k))) [0..<length pd])"
    using assms by (intro pageLoop_from) (auto simp: Suc_le_eq)
  finally show ?thesis .
qed

lemma pageLoop_None:
  assumes "i \<le> k" "k < length pd" "body k (pd ! k) = None"
  shows "pageLoop body pd i pdf = None"
  using assms(1)
proof (induction "k - i" arbitrary: i pdf)
  case 0
  then have "i = k" by simp
  then show ?case using assms(2,3) by (simp add: pageLoop.simps [of body pd k])
next
  case (Suc n)
  then have lt: "i < k" "i < length pd" using assms(2) by simp_all
  show ?case
  proof (cases "body i (pd ! i)")
    case None
    then show ?thesis using lt by (simp add: pageLoop.simps [of body pd i])
  next
    case (Some ops)
    have "pageLoop body pd (i + 1) (draw ops (if i > 0 then addPage pdf else pdf)) = None"
      using Suc lt by (intro Suc.hyps(1)) auto
    then show ?thesis using lt Some by (simp add: pageLoop.simps [of body pd i])
  qed
qed

section \<open>Tile partition\<close>

lemma partitionStep_length:
  assumes "0 < horizontal grid"
  shows "length (partitionStep px img grid) = nat (vertical grid) * nat (horizontal grid)"
  by (simp add: partitionStep_eq [OF assms])

lemma partitionStep_nth:
  assumes "0 < horizontal grid" "i < nat (vertical grid) * nat (horizontal grid)"
  shows "partitionStep px img grid ! i =
     drawPiece
       \<lparr>canvasWidth = px (real_of_int (width img) / real_of_int (horizontal grid)),
        canvasHeight = px (real_of_int (height img) / real_of_int (vertical grid))\<rparr>
       (real_of_int (width img) / real_of_int (horizontal grid))
       (real_of_int (height img) / real_of_int (vertical grid))
       (int (i div nat (horizontal grid))) (int (i mod nat (horizontal grid)))"
  using assms(2) by (simp add: partitionStep_eq [OF assms(1)])

lemma mult_nat_pos: "1 \<le> a \<Longrightarrow> 1 \<le> b \<Longrightarrow> nat (a * b) = nat b * nat a"
  by (simp add: nat_mult_distrib mult.commute)

lemma strip_cover:
  fixes pw x :: real
  shows "(\<exists>k<n. real k * pw \<le> x \<and> x < real k * pw + pw) \<longleftrightarrow> (0 \<le> x \<and> x < real n * pw)"
proof
  assume "\<exists>k<n. real k * pw \<le> x \<and> x < real k * pw + pw"
  then obtain k where k: "k < n" "real k * pw \<le> x" "x < real k * pw + pw"
    by blast
  have pw: "0 < pw"
    using k by linarith
  have "0 \<le> real k * pw"
    using pw by simp
  moreover have "real k * pw + pw \<le> real n * pw"
  proof -
    have "real (Suc k) * pw \<le> real n * pw"
      using k(1) pw by (intro mult_right_mono) auto
    then show ?thesis by (simp add: algebra_simps)
  qed
  ultimately show "0 \<le> x \<and> x < real n * pw"
    using k by linarith
next
  assume a: "0 \<le> x \<and> x < real n * pw"
  then have "0 < real n * pw" by linarith
  then have pw: "0 < pw"
    by (simp add: zero_less_mult_iff)
  define k where "k = nat \<lfloor>x / pw\<rfloor>"
  have nonneg: "0 \<le> \<lfloor>x / pw\<rfloor>"
    using a pw by simp
  then have rk: "real k = of_int \<lfloor>x / pw\<rfloor>"
    by (simp add: k_def)
  have lo: "real k * pw \<le> x"
  proof -
    have "real k \<le> x / pw" unfolding rk by (rule of_int_floor_le)
    then show ?thesis using pw by (simp add: pos_le_divide_eq)
  qed
  have hi: "x < real k * pw + pw"
  proof -
    have "x / pw < real k + 1" unfolding rk by linarith
    then have "x < (real k + 1) * pw" using pw by (simp add: pos_divide_less_eq)
    then show ?thesis by (simp add: algebra_simps)
  qed
  have "real k * pw < real n * pw"
    using lo a by linarith
  then have "k < n"
    using pw by simp
  then show "\<exists>k<n. real k * pw \<le> x \<and> x < real k * pw + pw"
    using lo hi by blast
qed

lemma strip_unique:
  fixes pw x :: real
  assumes "real k * pw \<le> x" "x < real k * pw + pw" "real l * pw \<le> x" "x < real l * pw + pw"
  shows "k = l"
proof -
  have pw: "0 < pw" using assms by linarith
  have "real k * pw < (real l + 1) * pw" "real l * pw < (real k + 1) * pw"
    using assms by (simp_all add: algebra_simps)
  then have "real k < real l + 1" "real l < real k + 1"
    using pw by simp_all
  then show ?thesis by linarith
qed

lemma index_split:
  fixes c r :: nat
  assumes "0 < c"
  shows "(\<exists>i<r * c. A (i mod c) \<and> B (i div c)) \<longleftrightarrow> (\<exists>k<c. A k) \<and> (\<exists>l<r. B l)"
proof
  assume "\<exists>i<r * c. A (i mod c) \<and> B (i div c)"
  then obtain i where i: "i < r * c" "A (i mod c)" "B (i div c)" by blast
  have "i mod c < c" using assms by simp
  moreover have "i div c < r" using i(1) assms by (simp add: less_mult_imp_div_less)
  ultimately show "(\<exists>k<c. A k) \<and> (\<exists>l<r. B l)" using i by blast
next
  assume "(\<exists>k<c. A k) \<and> (\<exists>l<r. B l)"
  then obtain k l where kl: "k < c" "A k" "l < r" "B l" by blast
  have "l * c + k < r * c"
  proof -
    have "l * c + k < l * c + c" using kl(1) by simp
    also have "\<dots> = Suc l * c" by simp
    also have "\<dots> \<le> r * c" using kl(3) by (intro mult_le_mono1) simp
    finally show ?thesis .
  qed
  moreover have "(l * c + k) mod c = k" "(l * c + k) div c = l"
    using kl(1) by simp_all
  ultimately show "\<exists>i<r * c. A (i mod c) \<and> B (i div c)"
    using kl by metis
qed

lemma inRect_drawPiece:
  "inRect (drawPiece canvas pw ph (int l) (int k)) x y \<longleftrightarrow>
     (real k * pw \<le> x \<and> x < real k * pw + pw) \<and> (real l * ph \<le> y \<and> y < real l * ph + ph)"
  by (auto simp: inRect_def drawPiece_def)

text \<open>
  C2. For every grid with at least one column and one row (and any image size), the
  partition step of \<^verbatim>\<open>generatePreview\<close> produces exactly columns * rows pieces. Piece
  \<open>i\<close> has the source rectangle at (col * W/columns, row * H/rows) with
  col = i mod columns and row = i div columns, and every piece has the same real-valued
  size W/columns by H/rows. The half-open rectangles cover \<open>[0,W) \<times> [0,H)\<close>: a point lies
  in some rectangle exactly when it lies in the image, and no point lies in two
  rectangles. The right edge of a piece is the left edge of its right neighbour and the
  bottom edge of a piece is the top edge of the piece below it (they differ by 0, so by
  less than one pixel). For a 1000 x 500 image and a 2 x 1 grid the rectangles are
  (0, 0, 500, 500) and (500, 0, 500, 500).
\<close>

theorem partition_tiles_cover:
  assumes "1 \<le> horizontal grid" "1 \<le> vertical grid"
  shows "(let ps = partitionStep px img grid;
              pw = real_of_int (width img) / real_of_int (horizontal grid);
              ph = real_of_int (height img) / real_of_int (vertical grid)
          in length ps = nat (horizontal grid * vertical grid) \<and>
    (\<forall>i<length ps.
        srcX (ps ! i) = real_of_int (int i mod horizontal grid) * pw \<and>
        srcY (ps ! i) = real_of_int (int i div horizontal grid) * ph \<and>
        srcW (ps ! i) = pw \<and> srcH (ps ! i) = ph) \<and>
    (\<forall>x y. (\<exists>i<length ps. inRect (ps ! i) x y) \<longleftrightarrow>
        (0 \<le> x \<and> x < real_of_int (width img) \<and> 0 \<le> y \<and> y < real_of_int (height img))) \<and>
    (\<forall>i j x y. i < length ps \<and> j < length ps \<and> inRect (ps ! i) x y \<and> inRect (ps ! j) x y
        \<longrightarrow> i = j) \<and>
    (\<forall>i. Suc i < length ps \<and> Suc i mod nat (horizontal grid) \<noteq> 0
        \<longrightarrow> srcX (ps ! i) + srcW (ps ! i) = srcX (ps ! Suc i) \<and> srcY (ps ! i) = srcY (ps ! Suc i)) \<and>
    (\<forall>i. i + nat (horizontal grid) < length ps
        \<longrightarrow> srcY (ps ! i) + srcH (ps ! i) = srcY (ps ! (i + nat (horizontal grid))) \<and>
            srcX (ps ! i) = srcX (ps ! (i + nat (horizontal grid))))) \<and>
    map (\<lambda>p. (srcX p, srcY p, srcW p, srcH p))
      (partitionStep px \<lparr>width = 1000, height = 500\<rparr> \<lparr>horizontal = 2, vertical = 1\<rparr>)
      = [(0, 0, 500, 500), (500, 0, 500, 500)]"
proof -
  define ps where "ps = partitionStep px img grid"
  define pw where "pw = real_of_int (width img) / real_of_int (horizontal grid)"
  define ph where "ph = real_of_int (height img) / real_of_int (vertical grid)"
  define c where "c = nat (horizontal grid)"
  define r where "r = nat (vertical grid)"
  define canvas where "canvas = \<lparr>canvasWidth = px pw, canvasHeight = px ph\<rparr>"
  have C: "0 < horizontal grid" and c: "0 < c" and cC: "int c = horizontal grid"
    and rR: "int r = vertical grid"
    using assms by (simp_all add: c_def r_def)
  have len: "length ps = r * c"
    unfolding ps_def c_def r_def by (rule partitionStep_length [OF C])
  have nth: "ps ! i = drawPiece canvas pw ph (int (i div c)) (int (i mod c))" if "i < r * c" for i
    using partitionStep_nth [OF C, where i = i and img = img and px = px] that
    unfolding ps_def c_def r_def canvas_def pw_def ph_def by simp
  have W: "real c * pw = real_of_int (width img)"
    using C by (simp add: pw_def c_def)
  have H: "real r * ph = real_of_int (height img)"
    using assms by (simp add: ph_def r_def)
  have p1: "length ps = nat (horizontal grid * vertical grid)"
    using assms by (simp add: len c_def r_def mult_nat_pos)
  have p2: "\<forall>i<length ps.
        srcX (ps ! i) = real_of_int (int i mod horizontal grid) * pw \<and>
        srcY (ps ! i) = real_of_int (int i div horizontal grid) * ph \<and>
        srcW (ps ! i) = pw \<and> srcH (ps ! i) = ph"
    by (simp add: len nth drawPiece_def zmod_int zdiv_int cC)
  have p3: "\<forall>x y. (\<exists>i<length ps. inRect (ps ! i) x y) \<longleftrightarrow>
        (0 \<le> x \<and> x < real_of_int (width img) \<and> 0 \<le> y \<and> y < real_of_int (height img))"
  proof (intro allI)
    fix x y
    have "(\<exists>i<length ps. inRect (ps ! i) x y) \<longleftrightarrow>
          (\<exists>i<r * c. (real (i mod c) * pw \<le> x \<and> x < real (i mod c) * pw + pw) \<and>
                      (real (i div c) * ph \<le> y \<and> y < real (i div c) * ph + ph))"
      by (simp add: len nth inRect_drawPiece cong: conj_cong)
    also have "\<dots> \<longleftrightarrow> (\<exists>k<c. real k * pw \<le> x \<and> x < real k * pw + pw) \<and>
                       (\<exists>l<r. real l * ph \<le> y \<and> y < real l * ph + ph)"
      by (rule index_split [OF c])
    also have "\<dots> \<longleftrightarrow> (0 \<le> x \<and> x < real c * pw) \<and> (0 \<le> y \<and> y < real r * ph)"
      by (simp only: strip_cover)
    finally show "(\<exists>i<length ps. inRect (ps ! i) x y) \<longleftrightarrow>
        (0 \<le> x \<and> x < real_of_int (width img) \<and> 0 \<le> y \<and> y < real_of_int (height img))"
      by (simp add: W H)
  qed
  have p4: "\<forall>i j x y. i < length ps \<and> j < length ps \<and> inRect (ps ! i) x y \<and> inRect (ps ! j) x y
        \<longrightarrow> i = j"
  proof (intro allI impI)
    fix i j x y
    assume a: "i < length ps \<and> j < length ps \<and> inRect (ps ! i) x y \<and> inRect (ps ! j) x y"
    then have i: "inRect (drawPiece canvas pw ph (int (i div c)) (int (i mod c))) x y"
      and j: "inRect (drawPiece canvas pw ph (int (j div c)) (int (j mod c))) x y"
      using nth len by auto
    have "i mod c = j mod c"
      using i j unfolding inRect_drawPiece by (intro strip_unique [of _ pw x]) simp_all
    moreover have "i div c = j div c"
      using i j unfolding inRect_drawPiece by (intro strip_unique [of _ ph y]) simp_all
    ultimately show "i = j"
      by (metis div_mult_mod_eq)
  qed
  have p5: "\<forall>i. Suc i < length ps \<and> Suc i mod nat (horizontal grid) \<noteq> 0
        \<longrightarrow> srcX (ps ! i) + srcW (ps ! i) = srcX (ps ! Suc i) \<and> srcY (ps ! i) = srcY (ps ! Suc i)"
  proof (intro allI impI)
    fix i
    assume a: "Suc i < length ps \<and> Suc i mod nat (horizontal grid) \<noteq> 0"
    then have lt: "Suc i < r * c" "i < r * c" and nz: "Suc i mod c \<noteq> 0"
      by (simp_all add: len c_def)
    have m: "Suc i mod c = Suc (i mod c)"
      using nz by (simp add: mod_Suc split: if_splits)
    have d: "Suc i div c = i div c"
      using nz by (simp add: div_Suc split: if_splits)
    show "srcX (ps ! i) + srcW (ps ! i) = srcX (ps ! Suc i) \<and> srcY (ps ! i) = srcY (ps ! Suc i)"
      unfolding nth [OF lt(1)] nth [OF lt(2)] m d
      by (simp add: drawPiece_def algebra_simps)
  qed
  have p6: "\<forall>i. i + nat (horizontal grid) < length ps
        \<longrightarrow> srcY (ps ! i) + srcH (ps ! i) = srcY (ps ! (i + nat (horizontal grid))) \<and>
            srcX (ps ! i) = srcX (ps ! (i + nat (horizontal grid)))"
  proof (intro allI impI)
    fix i
    assume "i + nat (horizontal grid) < length ps"
    then have lt: "i + c < r * c" "i < r * c"
      by (simp_all add: len c_def)
    have m: "(i + c) mod c = i mod c" by simp
    have d: "(i + c) div c = Suc (i div c)" using c by simp
    show "srcY (ps ! i) + srcH (ps ! i) = srcY (ps ! (i + nat (horizontal grid))) \<and>
            srcX (ps ! i) = srcX (ps ! (i + nat (horizontal grid)))"
      unfolding c_def [symmetric] nth [OF lt(1)] nth [OF lt(2)] m d
      by (simp add: drawPiece_def algebra_simps)
  qed
  have p7: "map (\<lambda>p. (srcX p, srcY p, srcW p, srcH p))
      (partitionStep px \<lparr>width = 1000, height = 500\<rparr> \<lparr>horizontal = 2, vertical = 1\<rparr>)
      = [(0, 0, 500, 500), (500, 0, 500, 500)]"
    by (simp add: partitionStep_eq drawPiece_def upt_conv_Cons)
  show ?thesis
    using p1 p2 p3 p4 p5 p6 p7 unfolding Let_def ps_def pw_def ph_def by blast
qed

theorem partition_tiles_cover_witness:
  "(1::int) \<le> horizontal (gridConfig exampleState) \<and>
   (1::int) \<le> vertical (gridConfig exampleState) \<and>
   length (partitionStep truncPx \<lparr>width = 1000, height = 500\<rparr> (gridConfig exampleState)) = 2 \<and>
   map (\<lambda>p. (srcX p, srcY p, srcW p, srcH p))
     (partitionStep truncPx \<lparr>width = 1000, height = 500\<rparr> (gridConfig exampleState))
     = [(0, 0, 500, 500), (500, 0, 500, 500)]"
proof -
  have h: "(1::int) \<le> horizontal (gridConfig exampleState)" "(1::int) \<le> vertical (gridConfig exampleState)"
    by (simp_all add: exampleState_def)
  have len: "length (partitionStep truncPx \<lparr>width = 1000, height = 500\<rparr> (gridConfig exampleState)) = 2"
    using partition_tiles_cover [OF h, of truncPx "\<lparr>width = 1000, height = 500\<rparr>"]
    by (simp add: Let_def exampleState_def)
  have "map (\<lambda>p. (srcX p, srcY p, srcW p, srcH p))
     (partitionStep truncPx \<lparr>width = 1000, height = 500\<rparr> (gridConfig exampleState))
     = [(0, 0, 500, 500), (500, 0, 500, 500)]"
    by (simp add: exampleState_def partitionStep_eq drawPiece_def upt_conv_Cons)
  then show ?thesis
    using h len by simp
qed

text \<open>
  C10. All pieces of one run of \<^verbatim>\<open>generatePreview\<close> have the same pixel size: the canvas
  is sized once, to the conversion of (imageWidth / columns, imageHeight / rows), and
  every piece is read from that canvas, whatever the conversion to whole pixels is.
\<close>

theorem pieces_same_raster:
  assumes "imageData st = Some img" "canvasReady st"
  shows "\<forall>p \<in> set (previewData (generatePreview px st)).
           rasterW p = px (real_of_int (width img) / real_of_int (horizontal (gridConfig st))) \<and>
           rasterH p = px (real_of_int (height img) / real_of_int (vertical (gridConfig st)))"
proof (cases "0 < horizontal (gridConfig st)")
  case True
  then show ?thesis
    using assms by (auto simp: generatePreview_def partitionStep_eq drawPiece_def)
next
  case False
  then have "partitionStep px img (gridConfig st) = []"
    by (intro partitionStep_empty) simp
  then show ?thesis
    using assms by (simp add: generatePreview_def)
qed

theorem pieces_same_raster_witness:
  "imageData (exampleState\<lparr>imageData := Some \<lparr>width = 1001, height = 500\<rparr>\<rparr>)
     = Some \<lparr>width = 1001, height = 500\<rparr> \<and>
   canvasReady (exampleState\<lparr>imageData := Some \<lparr>width = 1001, height = 500\<rparr>\<rparr>) \<and>
   map rasterW (previewData (generatePreview truncPx
       (exampleState\<lparr>imageData := Some \<lparr>width = 1001, height = 500\<rparr>\<rparr>))) = [500, 500] \<and>
   map rasterH (previewData (generatePreview truncPx
       (exampleState\<lparr>imageData := Some \<lparr>width = 1001, height = 500\<rparr>\<rparr>))) = [500, 500]"
  using pieces_same_raster [of "exampleState\<lparr>imageData := Some \<lparr>width = 1001, height = 500\<rparr>\<rparr>"
      "\<lparr>width = 1001, height = 500\<rparr>" truncPx]
  by (simp add: exampleState_def generatePreview_def partitionStep_eq drawPiece_def truncPx_def
      upt_conv_Cons)

section \<open>Grid input\<close>

text \<open>
  C9. A typed value that parses to \<open>NaN\<close> or to \<open>0\<close> is stored as \<open>1\<close>; a negative
  parsed integer is stored unchanged. With such a negative dimension in the grid
  \<^verbatim>\<open>generatePreview\<close> still runs: it stores an empty list of pieces and raises the
  success notification, not an error.
\<close>

theorem grid_input_coercion:
  assumes "n < 0" "imageData st = Some img" "canvasReady st"
  shows "horizontal (gridConfig (onChangeHorizontal NaN st)) = 1 \<and>
         horizontal (gridConfig (onChangeHorizontal (Num 0) st)) = 1 \<and>
         vertical (gridConfig (onChangeVertical NaN st)) = 1 \<and>
         vertical (gridConfig (onChangeVertical (Num 0) st)) = 1 \<and>
         horizontal (gridConfig (onChangeHorizontal (Num n) st)) = n \<and>
         vertical (gridConfig (onChangeVertical (Num n) st)) = n \<and>
         previewData (generatePreview px (onChangeHorizontal (Num n) st)) = [] \<and>
         previewData (generatePreview px (onChangeVertical (Num n) st)) = [] \<and>
         toasts (generatePreview px (onChangeHorizontal (Num n) st)) = toasts st @ [ToastSuccess PreviewGenerated] \<and>
         toasts (generatePreview px (onChangeVertical (Num n) st)) = toasts st @ [ToastSuccess PreviewGenerated]"
  using assms
  by (simp add: onChangeHorizontal_def onChangeVertical_def generatePreview_def partitionStep_empty)

theorem grid_input_coercion_witness:
  "(- 2 :: int) < 0 \<and>
   imageData exampleState = Some \<lparr>width = 1000, height = 500\<rparr> \<and>
   canvasReady exampleState \<and>
   horizontal (gridConfig (onChangeHorizontal NaN exampleState)) = 1 \<and>
   vertical (gridConfig (onChangeVertical (Num 0) exampleState)) = 1 \<and>
   gridConfig (onChangeHorizontal (Num (- 2)) exampleState) = \<lparr>horizontal = - 2, vertical = 1\<rparr> \<and>
   gridConfig (onChangeVertical (Num (- 2)) exampleState) = \<lparr>horizontal = 2, vertical = - 2\<rparr> \<and>
   previewData (generatePreview truncPx (onChangeHorizontal (Num (- 2)) exampleState)) = [] \<and>
   previewData (generatePreview truncPx (onChangeVertical (Num (- 2)) exampleState)) = [] \<and>
   toasts (generatePreview truncPx (onChangeHorizontal (Num (- 2)) exampleState))
     = [ToastSuccess PreviewGenerated] \<and>
   toasts (generatePreview truncPx (onChangeVertical (Num (- 2)) exampleState))
     = [ToastSuccess PreviewGenerated]"
  using grid_input_coercion [of "- 2" exampleState "\<lparr>width = 1000, height = 500\<rparr>" truncPx]
  by (simp add: exampleState_def onChangeHorizontal_def onChangeVertical_def)

section \<open>Page layout\<close>

text \<open>
  C8. In the guides version, for A4 portrait (210 x 297 mm), with the margin of 15 mm and
  the 25 mm reserved for the header, and a tile aspect ratio of 2 (here a 2000 x 1000
  image on a 2 x 2 grid), the drawable width is 180, the available height is
  297 - 30 - 25 = 242, the width-constrained branch is taken since 2 > 180/242, and
  the image is 180 wide and 90 high.
\<close>

theorem guides_a4_portrait_ratio_two:
  "pageSize (PAPER_FORMATS A4) Portrait = (210, 297) \<and>
   aspectRatio \<lparr>width = 2000, height = 1000\<rparr> \<lparr>horizontal = 2, vertical = 2\<rparr> = 2 \<and>
   (210::real) - 2 * 15 = 180 \<and>
   (297::real) - 2 * 15 - 25 = 242 \<and>
   (2::real) > 180 / 242 \<and>
   imgWidth (placementGuides 210 297 2) = 180 \<and>
   imgHeight (placementGuides 210 297 2) = 90"
  by (simp add: pageSize_def aspectRatio_def placementGuides_def)

text \<open>
  C6. The fitted image is horizontally centred on the page:
  imageX + imageWidth / 2 = pageWidth / 2, for every page size and every aspect ratio.
  The centered version computes \<open>x\<close> this way, and so do the other two versions.
\<close>

theorem image_horizontally_centered:
  "imgX (placementCentered pageWidth pageHeight ar)
     + imgWidth (placementCentered pageWidth pageHeight ar) / 2 = pageWidth / 2 \<and>
   imgX (placementGuides pageWidth pageHeight ar)
     + imgWidth (placementGuides pageWidth pageHeight ar) / 2 = pageWidth / 2 \<and>
   imgX (placementBasic pageWidth pageHeight ar)
     + imgWidth (placementBasic pageWidth pageHeight ar) / 2 = pageWidth / 2"
  by (simp add: placementCentered_def placementGuides_def placementBasic_def Let_def
      split: prod.splits) (simp add: field_simps)




section \<open>Guards of generatePreview\<close>

text \<open>
  C4 (as stated, refuted). With no image, \<^verbatim>\<open>generatePreview\<close> returns the state it was
  given: no notification is raised, nothing is signalled. With a grid of -2 columns it
  is not rejected either: it runs, stores an empty list of pieces and raises the success
  notification.
\<close>

theorem preview_rejection_counterexample:
  "imageData (exampleState\<lparr>imageData := None\<rparr>) = None \<and>
   generatePreview truncPx (exampleState\<lparr>imageData := None\<rparr>) = exampleState\<lparr>imageData := None\<rparr> \<and>
   toasts (generatePreview truncPx (exampleState\<lparr>imageData := None\<rparr>)) = [] \<and>
   gridConfig (onChangeHorizontal (Num (- 2)) exampleState) = \<lparr>horizontal = - 2, vertical = 1\<rparr> \<and>
   previewData (generatePreview truncPx (onChangeHorizontal (Num (- 2)) exampleState)) = [] \<and>
   toasts (generatePreview truncPx (onChangeHorizontal (Num (- 2)) exampleState))
     = [ToastSuccess PreviewGenerated]"
  by (simp add: exampleState_def generatePreview_def onChangeHorizontal_def partitionStep_empty)

text \<open>
  C4 (amended). If the image (or the canvas or its 2d context) is absent,
  \<^verbatim>\<open>generatePreview\<close> returns at once: no tiling is computed, the state is unchanged and
  nothing is signalled. The grid is not checked: with an image and a canvas,
  \<^verbatim>\<open>generatePreview\<close> always runs the partition step, stores its result and raises the
  success notification; for a grid with a non-positive dimension that result is the
  empty list.
\<close>

theorem preview_guards:
  "(imageData st = None \<or> \<not> canvasReady st \<longrightarrow> generatePreview px st = st) \<and>
   (imageData st = Some img \<and> canvasReady st \<longrightarrow>
      generatePreview px st =
        st\<lparr>previewData := partitionStep px img (gridConfig st),
           toasts := toasts st @ [ToastSuccess PreviewGenerated]\<rparr>) \<and>
   (horizontal grid \<le> 0 \<or> vertical grid \<le> 0 \<longrightarrow> partitionStep px img grid = [])"
  by (auto simp: generatePreview_def partitionStep_empty split: option.splits)

theorem preview_guards_witness:
  "imageData (exampleState\<lparr>imageData := None\<rparr>) = None \<and>
   generatePreview truncPx (exampleState\<lparr>imageData := None\<rparr>) = exampleState\<lparr>imageData := None\<rparr> \<and>
   imageData exampleState = Some \<lparr>width = 1000, height = 500\<rparr> \<and>
   canvasReady exampleState \<and>
   map pieceCol (previewData (generatePreview truncPx exampleState)) = [0, 1] \<and>
   toasts (generatePreview truncPx exampleState) = [ToastSuccess PreviewGenerated] \<and>
   vertical \<lparr>horizontal = 2, vertical = - 1\<rparr> \<le> 0 \<and>
   partitionStep truncPx \<lparr>width = 1000, height = 500\<rparr> \<lparr>horizontal = 2, vertical = - 1\<rparr> = []"
  using preview_guards [of "exampleState\<lparr>imageData := None\<rparr>" truncPx "\<lparr>width = 1000, height = 500\<rparr>"
      "\<lparr>horizontal = 2, vertical = - 1\<rparr>"]
    preview_guards [of exampleState truncPx "\<lparr>width = 1000, height = 500\<rparr>"
      "\<lparr>horizontal = 2, vertical = - 1\<rparr>"]
  by (simp add: exampleState_def partitionStep_eq drawPiece_def upt_conv_Cons)

section \<open>Export\<close>

lemma imagesOf_append: "imagesOf (xs @ ys) = imagesOf xs @ imagesOf ys"
  by (induction xs rule: imagesOf.induct) simp_all

lemma captionsOf_append: "captionsOf (xs @ ys) = captionsOf xs @ captionsOf ys"
  by (induction xs rule: captionsOf.induct) simp_all

lemma imagesOf_guideOps: "imagesOf (guideOps pageWidth pageHeight p) = []"
  by (simp add: guideOps_def Let_def)

lemma captionsOf_guideOps: "captionsOf (guideOps pageWidth pageHeight p) = []"
  by (simp add: guideOps_def Let_def)

lemma pageGuides_drawn:
  assumes "\<not> emptyRaster imgData"
  shows "pageGuides st img pageWidth pageHeight i imgData \<noteq> None"
    and "imagesOf (the (pageGuides st img pageWidth pageHeight i imgData)) =
           [(imgData, placementGuides pageWidth pageHeight (aspectRatio img (gridConfig st)))]"
    and "captionsOf (the (pageGuides st img pageWidth pageHeight i imgData)) =
           [PageOfTotal (int i + 1) (length (previewData st)),
            GridInfo (plusOne (gridPos i (horizontal (gridConfig st))))
              (paperName (PAPER_FORMATS (paperFormat st))) (orientation st),
            Instructions (plusOne (gridPos i (horizontal (gridConfig st))))]"
  using assms
  by (simp_all add: pageGuides_def addImage_def Let_def imagesOf_append imagesOf_guideOps
      captionsOf_append captionsOf_guideOps)

lemma pageCentered_drawn:
  assumes "\<not> emptyRaster imgData"
  shows "pageCentered st img pageWidth pageHeight i imgData \<noteq> None"
    and "imagesOf (the (pageCentered st img pageWidth pageHeight i imgData)) =
           [(imgData, placementCentered pageWidth pageHeight (aspectRatio img (gridConfig st)))]"
    and "captionsOf (the (pageCentered st img pageWidth pageHeight i imgData)) =
           [PageFraction (int i + 1) (length (previewData st)),
            CellLabel (plusOne (gridPos i (horizontal (gridConfig st))))]"
  using assms by (simp_all add: pageCentered_def addImage_def Let_def)


lemma page_thrown:
  assumes "emptyRaster imgData"
  shows "pageGuides st img pageWidth pageHeight i imgData = None"
    and "pageCentered st img pageWidth pageHeight i imgData = None"
    and "pageBasic st img pageWidth pageHeight i imgData = None"
  using assms by (simp_all add: pageGuides_def pageCentered_def pageBasic_def addImage_def Let_def)

lemma generatePDF_guides_saved:
  assumes "previewData st \<noteq> []" "imageData st = Some img"
    and "\<forall>p \<in> set (previewData st). \<not> emptyRaster p"
  shows "generatePDF_guides st =
     (st\<lparr>toasts := toasts st @ [ToastSuccess PdfGenerated]\<rparr>,
      Saved (map (\<lambda>k. the (pageGuides st img
                        (fst (pageSize (PAPER_FORMATS (paperFormat st)) (orientation st)))
                        (snd (pageSize (PAPER_FORMATS (paperFormat st)) (orientation st)))
                        k (previewData st ! k)))
                 [0..<length (previewData st)])
            (fileNameFull st))"
proof -
  have "\<forall>k<length (previewData st). pageGuides st img pw ph k (previewData st ! k) \<noteq> None" for pw ph
    using assms(3) by (simp add: pageGuides_drawn(1))
  then show ?thesis
    using assms(1,2) by (simp add: generatePDF_guides_def pageLoop_eq split: prod.splits)
qed

lemma generatePDF_centered_saved:
  assumes "previewData st \<noteq> []" "imageData st = Some img"
    and "\<forall>p \<in> set (previewData st). \<not> emptyRaster p"
  shows "generatePDF_centered st =
     (st\<lparr>toasts := toasts st @ [ToastSuccess PdfGenerated]\<rparr>,
      Saved (map (\<lambda>k. the (pageCentered st img
                        (fst (pageSize (PAPER_FORMATS (paperFormat st)) (orientation st)))
                        (snd (pageSize (PAPER_FORMATS (paperFormat st)) (orientation st)))
                        k (previewData st ! k)))
                 [0..<length (previewData st)])
            (fileNameFull st))"
proof -
  have "\<forall>k<length (previewData st). pageCentered st img pw ph k (previewData st ! k) \<noteq> None" for pw ph
    using assms(3) by (simp add: pageCentered_drawn(1))
  then show ?thesis
    using assms(1,2) by (simp add: generatePDF_centered_def pageLoop_eq split: prod.splits)
qed


text \<open>
  The error path: when some piece of the preview has no pixels, \<^verbatim>\<open>pdf.addImage\<close> throws in
  its iteration, and no version saves a document or raises a notification.
\<close>

lemma export_fails_on_empty_raster:
  assumes "imageData st = Some img" "p \<in> set (previewData st)" "emptyRaster p"
  shows "generatePDF_guides st = (st, ImageError)"
    and "generatePDF_centered st = (st, ImageError)"
    and "generatePDF_basic pageWidth pageHeight st = (st, ImageError)"
proof -
  obtain k where k: "k < length (previewData st)" "previewData st ! k = p"
    using assms(2) by (auto simp: in_set_conv_nth)
  have ne: "previewData st \<noteq> []"
    using assms(2) by auto
  have "pageLoop (pageGuides st img pw ph) (previewData st) 0 newPdf = None" for pw ph
    by (rule pageLoop_None [of 0 k]) (simp_all add: k assms(3) page_thrown)
  then show "generatePDF_guides st = (st, ImageError)"
    using assms(1) ne by (simp add: generatePDF_guides_def split: prod.splits)
  have "pageLoop (pageCentered st img pw ph) (previewData st) 0 newPdf = None" for pw ph
    by (rule pageLoop_None [of 0 k]) (simp_all add: k assms(3) page_thrown)
  then show "generatePDF_centered st = (st, ImageError)"
    using assms(1) ne by (simp add: generatePDF_centered_def split: prod.splits)
  have "pageLoop (pageBasic st img pageWidth pageHeight) (previewData st) 0 newPdf = None"
    by (rule pageLoop_None [of 0 k]) (simp_all add: k assms(3) page_thrown)
  then show "generatePDF_basic pageWidth pageHeight st = (st, ImageError)"
    using assms(1) ne by (simp add: generatePDF_basic_def)
qed

lemmas example_simps =
  exampleState_def generatePreview_def partitionStep_eq drawPiece_def truncPx_def upt_conv_Cons
  onChangeHorizontal_def onChangeVertical_def

lemmas name_simps = fileNameFull_def fileNameBasic_def showInt_def showNat.simps digitChar_def

lemma fresh_preview_pages:
  assumes "imageData st = Some img" "canvasReady st"
    and "1 \<le> horizontal (gridConfig st)" "1 \<le> vertical (gridConfig st)"
    and "i < nat (horizontal (gridConfig st) * vertical (gridConfig st))"
    and "0 < width img" "0 < height img"
    and "0 < px (real_of_int (width img) / real_of_int (horizontal (gridConfig st)))"
    and "0 < px (real_of_int (height img) / real_of_int (vertical (gridConfig st)))"
  shows "(let grid = gridConfig st;
              pieces = partitionStep px img grid;
              col = int i mod horizontal grid;
              row = int i div horizontal grid;
              st' = generatePreview px st
          in length pieces = nat (horizontal grid * vertical grid) \<and>
             pieceCol (pieces ! i) = col \<and>
             pieceRow (pieces ! i) = row \<and>
             gridPos i (horizontal grid) = Some (pieceCol (pieces ! i), pieceRow (pieces ! i)) \<and>
             previewData st' = pieces \<and>
             length (savedPages (snd (generatePDF_guides st'))) = length pieces \<and>
             map fst (imagesOf (savedPages (snd (generatePDF_guides st')) ! i)) = [pieces ! i] \<and>
             captionsOf (savedPages (snd (generatePDF_guides st')) ! i) =
               [PageOfTotal (int i + 1) (length pieces),
                GridInfo (Some (col + 1, row + 1)) (paperName (PAPER_FORMATS (paperFormat st)))
                  (orientation st),
                Instructions (Some (col + 1, row + 1))] \<and>
             length (savedPages (snd (generatePDF_centered st'))) = length pieces \<and>
             map fst (imagesOf (savedPages (snd (generatePDF_centered st')) ! i)) = [pieces ! i] \<and>
             captionsOf (savedPages (snd (generatePDF_centered st')) ! i) =
               [PageFraction (int i + 1) (length pieces), CellLabel (Some (col + 1, row + 1))])"
proof -
  define grid where "grid = gridConfig st"
  define pieces where "pieces = partitionStep px img grid"
  define st' where "st' = generatePreview px st"
  have c: "0 < horizontal grid" using assms by (simp add: grid_def)
  have n: "nat (horizontal grid * vertical grid) = nat (vertical grid) * nat (horizontal grid)"
    using assms by (simp add: mult_nat_pos grid_def)
  have i: "i < nat (vertical grid) * nat (horizontal grid)"
    using assms n by (simp add: grid_def)
  have len: "length pieces = nat (vertical grid) * nat (horizontal grid)"
    unfolding pieces_def by (rule partitionStep_length [OF c])
  have col: "int (i mod nat (horizontal grid)) = int i mod horizontal grid"
    using c by (simp add: zmod_int)
  have row: "int (i div nat (horizontal grid)) = int i div horizontal grid"
    using c by (simp add: zdiv_int)
  have fl: "\<lfloor>real i / real_of_int (horizontal grid)\<rfloor> = int i div horizontal grid"
    using floor_divide_of_int_eq [of "int i" "horizontal grid", where ?'a = real] by simp
  have pc: "pieceCol (pieces ! i) = int i mod horizontal grid"
    and pr: "pieceRow (pieces ! i) = int i div horizontal grid"
    unfolding pieces_def by (simp_all add: partitionStep_nth [OF c i] drawPiece_def col row)
  have gp: "gridPos i (horizontal grid) = Some (int i mod horizontal grid, int i div horizontal grid)"
    using c by (simp add: gridPos_def fl)
  have st: "previewData st' = pieces" "imageData st' = Some img" "gridConfig st' = grid"
    "paperFormat st' = paperFormat st" "orientation st' = orientation st"
    using assms(1,2) by (simp_all add: st'_def generatePreview_def pieces_def grid_def)
  have ne: "pieces \<noteq> []"
    using len i by auto
  have px: "0 < px (real_of_int (width img) / real_of_int (horizontal grid))"
    "0 < px (real_of_int (height img) / real_of_int (vertical grid))"
    using assms(8,9) by (simp_all add: grid_def)
  have raster: "\<forall>p \<in> set pieces. \<not> emptyRaster p"
    using px unfolding pieces_def
    by (auto simp: partitionStep_eq [OF c] drawPiece_def emptyRaster_def)
  have ri: "\<not> emptyRaster (pieces ! i)"
    using raster len i by simp
  note pre = st(1) [symmetric]
  have g: "generatePDF_guides st' =
     (st'\<lparr>toasts := toasts st' @ [ToastSuccess PdfGenerated]\<rparr>,
      Saved (map (\<lambda>k. the (pageGuides st' img
                        (fst (pageSize (PAPER_FORMATS (paperFormat st')) (orientation st')))
                        (snd (pageSize (PAPER_FORMATS (paperFormat st')) (orientation st')))
                        k (previewData st' ! k)))
                 [0..<length (previewData st')])
            (fileNameFull st'))"
    by (rule generatePDF_guides_saved) (simp_all add: st ne raster)
  have ce: "generatePDF_centered st' =
     (st'\<lparr>toasts := toasts st' @ [ToastSuccess PdfGenerated]\<rparr>,
      Saved (map (\<lambda>k. the (pageCentered st' img
                        (fst (pageSize (PAPER_FORMATS (paperFormat st')) (orientation st')))
                        (snd (pageSize (PAPER_FORMATS (paperFormat st')) (orientation st')))
                        k (previewData st' ! k)))
                 [0..<length (previewData st')])
            (fileNameFull st'))"
    by (rule generatePDF_centered_saved) (simp_all add: st ne raster)
  have il: "i < length pieces" using len i by simp
  have g1: "length (savedPages (snd (generatePDF_guides st'))) = length pieces"
    and g2: "map fst (imagesOf (savedPages (snd (generatePDF_guides st')) ! i)) = [pieces ! i]"
    and g3: "captionsOf (savedPages (snd (generatePDF_guides st')) ! i) =
               [PageOfTotal (int i + 1) (length pieces),
                GridInfo (Some (int i mod horizontal grid + 1, int i div horizontal grid + 1))
                  (paperName (PAPER_FORMATS (paperFormat st))) (orientation st),
                Instructions (Some (int i mod horizontal grid + 1, int i div horizontal grid + 1))]"
    unfolding g using il ri
    by (simp_all add: st pageGuides_drawn gp plusOne_def)
  have c1: "length (savedPages (snd (generatePDF_centered st'))) = length pieces"
    and c2: "map fst (imagesOf (savedPages (snd (generatePDF_centered st')) ! i)) = [pieces ! i]"
    and c3: "captionsOf (savedPages (snd (generatePDF_centered st')) ! i) =
               [PageFraction (int i + 1) (length pieces),
                CellLabel (Some (int i mod horizontal grid + 1, int i div horizontal grid + 1))]"
    unfolding ce using il ri
    by (simp_all add: st pageCentered_drawn gp plusOne_def)
  show ?thesis
    unfolding Let_def grid_def [symmetric] pieces_def [symmetric] st'_def [symmetric]
    using len n pc pr gp st(1) g1 g2 g3 c1 c2 c3 by simp
qed

text \<open>
  C3. The pieces are in row-major order: for every grid with positive dimensions and
  every index \<open>i\<close> below columns * rows, piece \<open>i\<close> was pushed by the iteration with
  col = i mod columns and row = i div columns, and the position \<^verbatim>\<open>generatePDF\<close> computes for
  page \<open>i\<close> (\<^verbatim>\<open>i % totalCols\<close>, \<^verbatim>\<open>Math.floor(i / totalCols)\<close>) is that same pair. In the
  export of a fresh preview (an image of positive size whose pieces have pixels), page
  \<open>i\<close> of the guides and of the centered version shows piece \<open>i\<close> and its captions
  print col + 1 and row + 1 of that piece.
\<close>

theorem row_major_order:
  assumes "1 \<le> horizontal grid" "1 \<le> vertical grid" "i < nat (horizontal grid * vertical grid)"
  shows "length (partitionStep px img grid) = nat (horizontal grid * vertical grid) \<and>
         pieceCol (partitionStep px img grid ! i) = int i mod horizontal grid \<and>
         pieceRow (partitionStep px img grid ! i) = int i div horizontal grid \<and>
         gridPos i (horizontal grid) =
           Some (pieceCol (partitionStep px img grid ! i), pieceRow (partitionStep px img grid ! i)) \<and>
         (imageData st = Some img \<and> canvasReady st \<and> gridConfig st = grid \<and>
          0 < width img \<and> 0 < height img \<and>
          0 < px (real_of_int (width img) / real_of_int (horizontal grid)) \<and>
          0 < px (real_of_int (height img) / real_of_int (vertical grid)) \<longrightarrow>
            (let st' = generatePreview px st;
                 pieces = previewData st';
                 col = pieceCol (pieces ! i);
                 row = pieceRow (pieces ! i)
             in pieces = partitionStep px img grid \<and>
                length (savedPages (snd (generatePDF_guides st'))) = length pieces \<and>
                map fst (imagesOf (savedPages (snd (generatePDF_guides st')) ! i)) = [pieces ! i] \<and>
                captionsOf (savedPages (snd (generatePDF_guides st')) ! i) =
                  [PageOfTotal (int i + 1) (length pieces),
                   GridInfo (Some (col + 1, row + 1)) (paperName (PAPER_FORMATS (paperFormat st)))
                     (orientation st),
                   Instructions (Some (col + 1, row + 1))] \<and>
                length (savedPages (snd (generatePDF_centered st'))) = length pieces \<and>
                map fst (imagesOf (savedPages (snd (generatePDF_centered st')) ! i)) = [pieces ! i] \<and>
                captionsOf (savedPages (snd (generatePDF_centered st')) ! i) =
                  [PageFraction (int i + 1) (length pieces), CellLabel (Some (col + 1, row + 1))]))"
proof -
  have c: "0 < horizontal grid" using assms by simp
  have n: "nat (horizontal grid * vertical grid) = nat (vertical grid) * nat (horizontal grid)"
    using assms by (simp add: mult_nat_pos)
  have i: "i < nat (vertical grid) * nat (horizontal grid)"
    using assms n by simp
  have col: "int (i mod nat (horizontal grid)) = int i mod horizontal grid"
    using c by (simp add: zmod_int)
  have row: "int (i div nat (horizontal grid)) = int i div horizontal grid"
    using c by (simp add: zdiv_int)
  have fl: "\<lfloor>real i / real_of_int (horizontal grid)\<rfloor> = int i div horizontal grid"
    using floor_divide_of_int_eq [of "int i" "horizontal grid", where ?'a = real] by simp
  have order: "length (partitionStep px img grid) = nat (horizontal grid * vertical grid) \<and>
         pieceCol (partitionStep px img grid ! i) = int i mod horizontal grid \<and>
         pieceRow (partitionStep px img grid ! i) = int i div horizontal grid \<and>
         gridPos i (horizontal grid) =
           Some (pieceCol (partitionStep px img grid ! i), pieceRow (partitionStep px img grid ! i))"
    using c by (simp add: partitionStep_length [OF c] partitionStep_nth [OF c i] n drawPiece_def
        col row gridPos_def fl)
  have pages: "imageData st = Some img \<and> canvasReady st \<and> gridConfig st = grid \<and>
          0 < width img \<and> 0 < height img \<and>
          0 < px (real_of_int (width img) / real_of_int (horizontal grid)) \<and>
          0 < px (real_of_int (height img) / real_of_int (vertical grid)) \<longrightarrow>
            (let st' = generatePreview px st;
                 pieces = previewData st';
                 col = pieceCol (pieces ! i);
                 row = pieceRow (pieces ! i)
             in pieces = partitionStep px img grid \<and>
                length (savedPages (snd (generatePDF_guides st'))) = length pieces \<and>
                map fst (imagesOf (savedPages (snd (generatePDF_guides st')) ! i)) = [pieces ! i] \<and>
                captionsOf (savedPages (snd (generatePDF_guides st')) ! i) =
                  [PageOfTotal (int i + 1) (length pieces),
                   GridInfo (Some (col + 1, row + 1)) (paperName (PAPER_FORMATS (paperFormat st)))
                     (orientation st),
                   Instructions (Some (col + 1, row + 1))] \<and>
                length (savedPages (snd (generatePDF_centered st'))) = length pieces \<and>
                map fst (imagesOf (savedPages (snd (generatePDF_centered st')) ! i)) = [pieces ! i] \<and>
                captionsOf (savedPages (snd (generatePDF_centered st')) ! i) =
                  [PageFraction (int i + 1) (length pieces), CellLabel (Some (col + 1, row + 1))])"
  proof (intro impI, elim conjE)
    assume a: "imageData st = Some img" "canvasReady st" "gridConfig st = grid"
      "0 < width img" "0 < height img"
      "0 < px (real_of_int (width img) / real_of_int (horizontal grid))"
      "0 < px (real_of_int (height img) / real_of_int (vertical grid))"
    have h: "1 \<le> horizontal (gridConfig st)" "1 \<le> vertical (gridConfig st)"
      "i < nat (horizontal (gridConfig st) * vertical (gridConfig st))"
      "0 < px (real_of_int (width img) / real_of_int (horizontal (gridConfig st)))"
      "0 < px (real_of_int (height img) / real_of_int (vertical (gridConfig st)))"
      using assms a by simp_all
    note f = fresh_preview_pages [OF a(1,2) h(1,2,3) a(4,5) h(4,5), unfolded Let_def a(3)]
    show "let st' = generatePreview px st;
                 pieces = previewData st';
                 col = pieceCol (pieces ! i);
                 row = pieceRow (pieces ! i)
             in pieces = partitionStep px img grid \<and>
                length (savedPages (snd (generatePDF_guides st'))) = length pieces \<and>
                map fst (imagesOf (savedPages (snd (generatePDF_guides st')) ! i)) = [pieces ! i] \<and>
                captionsOf (savedPages (snd (generatePDF_guides st')) ! i) =
                  [PageOfTotal (int i + 1) (length pieces),
                   GridInfo (Some (col + 1, row + 1)) (paperName (PAPER_FORMATS (paperFormat st)))
                     (orientation st),
                   Instructions (Some (col + 1, row + 1))] \<and>
                length (savedPages (snd (generatePDF_centered st'))) = length pieces \<and>
                map fst (imagesOf (savedPages (snd (generatePDF_centered st')) ! i)) = [pieces ! i] \<and>
                captionsOf (savedPages (snd (generatePDF_centered st')) ! i) =
                  [PageFraction (int i + 1) (length pieces), CellLabel (Some (col + 1, row + 1))]"
      unfolding Let_def using f by simp
  qed
  show ?thesis
    using order pages by blast
qed

theorem row_major_order_witness:
  "(1::int) \<le> 3 \<and> (1::int) \<le> 2 \<and> (4::nat) < nat (3 * 2) \<and>
   imageData (exampleState\<lparr>gridConfig := \<lparr>horizontal = 3, vertical = 2\<rparr>\<rparr>)
     = Some \<lparr>width = 1000, height = 500\<rparr> \<and>
   canvasReady (exampleState\<lparr>gridConfig := \<lparr>horizontal = 3, vertical = 2\<rparr>\<rparr>) \<and>
   gridConfig (exampleState\<lparr>gridConfig := \<lparr>horizontal = 3, vertical = 2\<rparr>\<rparr>)
     = \<lparr>horizontal = 3, vertical = 2\<rparr> \<and>
   0 < truncPx (1000 / 3) \<and> 0 < truncPx (500 / 2) \<and>
   length (partitionStep truncPx \<lparr>width = 1000, height = 500\<rparr> \<lparr>horizontal = 3, vertical = 2\<rparr>) = 6 \<and>
   pieceCol (partitionStep truncPx \<lparr>width = 1000, height = 500\<rparr> \<lparr>horizontal = 3, vertical = 2\<rparr> ! 4) = 1 \<and>
   pieceRow (partitionStep truncPx \<lparr>width = 1000, height = 500\<rparr> \<lparr>horizontal = 3, vertical = 2\<rparr> ! 4) = 1 \<and>
   gridPos 4 3 = Some (1, 1) \<and>
   length (savedPages (snd (generatePDF_guides (generatePreview truncPx
      (exampleState\<lparr>gridConfig := \<lparr>horizontal = 3, vertical = 2\<rparr>\<rparr>))))) = 6 \<and>
   captionsOf (savedPages (snd (generatePDF_guides (generatePreview truncPx
      (exampleState\<lparr>gridConfig := \<lparr>horizontal = 3, vertical = 2\<rparr>\<rparr>)))) ! 4)
     = [PageOfTotal 5 6, GridInfo (Some (2, 2)) ''A4'' Portrait, Instructions (Some (2, 2))] \<and>
   captionsOf (savedPages (snd (generatePDF_centered (generatePreview truncPx
      (exampleState\<lparr>gridConfig := \<lparr>horizontal = 3, vertical = 2\<rparr>\<rparr>)))) ! 4)
     = [PageFraction 5 6, CellLabel (Some (2, 2))]"
proof -
  note t = row_major_order [of "\<lparr>horizontal = 3, vertical = 2\<rparr>" 4 truncPx
      "\<lparr>width = 1000, height = 500\<rparr>"
      "exampleState\<lparr>gridConfig := \<lparr>horizontal = 3, vertical = 2\<rparr>\<rparr>", unfolded Let_def]
  have h: "imageData (exampleState\<lparr>gridConfig := \<lparr>horizontal = 3, vertical = 2\<rparr>\<rparr>)
     = Some \<lparr>width = 1000, height = 500\<rparr>"
    "canvasReady (exampleState\<lparr>gridConfig := \<lparr>horizontal = 3, vertical = 2\<rparr>\<rparr>)"
    "gridConfig (exampleState\<lparr>gridConfig := \<lparr>horizontal = 3, vertical = 2\<rparr>\<rparr>)
     = \<lparr>horizontal = 3, vertical = 2\<rparr>"
    "paperFormat (exampleState\<lparr>gridConfig := \<lparr>horizontal = 3, vertical = 2\<rparr>\<rparr>) = A4"
    "orientation (exampleState\<lparr>gridConfig := \<lparr>horizontal = 3, vertical = 2\<rparr>\<rparr>) = Portrait"
    "0 < truncPx (1000 / 3)" "0 < truncPx (500 / 2)"
    by (simp_all add: exampleState_def truncPx_def)
  show ?thesis
    using t h by simp
qed

text \<open>
  C5 (as stated, refuted). After a preview of the 1000 x 500 image on a 2 x 1 grid, the
  number of columns is set to -2. The tile aspect ratio that \<^verbatim>\<open>generatePDF\<close> computes is
  then -1, and the guides version does not reject it: it saves a document of two pages,
  each with an image placed with width -242 and height 242, and raises the success
  notification.
\<close>

theorem layout_rejection_counterexample:
  "aspectRatio \<lparr>width = 1000, height = 500\<rparr>
      (gridConfig (onChangeHorizontal (Num (- 2)) (generatePreview truncPx exampleState))) = - 1 \<and>
   savedName (snd (generatePDF_guides
      (onChangeHorizontal (Num (- 2)) (generatePreview truncPx exampleState))))
     = Some ''poster--2x1-a4-portrait.pdf'' \<and>
   map (map snd \<circ> imagesOf) (savedPages (snd (generatePDF_guides
      (onChangeHorizontal (Num (- 2)) (generatePreview truncPx exampleState)))))
     = [[\<lparr>imgX = 226, imgY = 30, imgWidth = - 242, imgHeight = 242\<rparr>],
        [\<lparr>imgX = 226, imgY = 30, imgWidth = - 242, imgHeight = 242\<rparr>]] \<and>
   toasts (fst (generatePDF_guides
      (onChangeHorizontal (Num (- 2)) (generatePreview truncPx exampleState))))
     = [ToastSuccess PreviewGenerated, ToastSuccess PdfGenerated]"
  by (simp add: example_simps name_simps generatePDF_guides_saved aspectRatio_def pageSize_def
      pageGuides_drawn placementGuides_def emptyRaster_def)

text \<open>
  C5 (amended). A tile aspect ratio \<open>\<le> 0\<close> is not rejected and no default value is put
  in its place: on a positive drawable area the layout is computed by the
  height-constrained branch, imageHeight is the available height and imageWidth is the
  available height times the ratio, which is \<open>\<le> 0\<close>. With such a ratio the guides
  version still saves the document, with that layout on every page, and raises the
  success notification, provided the export does not fail for another reason (every
  piece has pixels, the image has a positive size and the grid counts are not 0). A
  paper width or height \<open>\<le> 0\<close> cannot occur: the paper sizes come from the fixed
  catalogue and are positive.
\<close>

theorem layout_not_validated:
  "0 < paperWidth (PAPER_FORMATS f) \<and> 0 < paperHeight (PAPER_FORMATS f) \<and>
   (ar \<le> 0 \<and> 30 < pageWidth \<and> 55 < pageHeight \<longrightarrow>
      imgHeight (placementGuides pageWidth pageHeight ar) = pageHeight - 2 * 15 - 25 \<and>
      imgWidth (placementGuides pageWidth pageHeight ar) = (pageHeight - 2 * 15 - 25) * ar \<and>
      imgWidth (placementGuides pageWidth pageHeight ar) \<le> 0) \<and>
   (ar \<le> 0 \<and> 10 < pageWidth \<and> 10 < pageHeight \<longrightarrow>
      imgHeight (placementCentered pageWidth pageHeight ar) = pageHeight - 2 * 5 \<and>
      imgWidth (placementCentered pageWidth pageHeight ar) = (pageHeight - 2 * 5) * ar \<and>
      imgWidth (placementCentered pageWidth pageHeight ar) \<le> 0) \<and>
   (ar \<le> 0 \<and> 20 < pageWidth \<and> 40 < pageHeight \<longrightarrow>
      imgHeight (placementBasic pageWidth pageHeight ar) = pageHeight - 2 * 10 - 20 \<and>
      imgWidth (placementBasic pageWidth pageHeight ar) = (pageHeight - 2 * 10 - 20) * ar \<and>
      imgWidth (placementBasic pageWidth pageHeight ar) \<le> 0) \<and>
   (previewData st \<noteq> [] \<and> (\<forall>p \<in> set (previewData st). \<not> emptyRaster p) \<and>
    imageData st = Some img \<and> 0 < width img \<and> 0 < height img \<and>
    horizontal (gridConfig st) \<noteq> 0 \<and> vertical (gridConfig st) \<noteq> 0 \<and>
    aspectRatio img (gridConfig st) \<le> 0 \<longrightarrow>
      toasts (fst (generatePDF_guides st)) = toasts st @ [ToastSuccess PdfGenerated] \<and>
      map (map snd \<circ> imagesOf) (savedPages (snd (generatePDF_guides st)))
        = map (\<lambda>piece. [placementGuides
                 (fst (pageSize (PAPER_FORMATS (paperFormat st)) (orientation st)))
                 (snd (pageSize (PAPER_FORMATS (paperFormat st)) (orientation st)))
                 (aspectRatio img (gridConfig st))]) (previewData st))"
proof -
  have neg: "\<not> ar > mw / mh" if "ar \<le> 0" "0 < mw" "0 < mh" for mw mh :: real
  proof -
    have "0 < mw / mh" using that by simp
    then show ?thesis using that by linarith
  qed
  have np: "h * ar \<le> 0" if "ar \<le> 0" "0 < h" for h :: real
    using that by (simp add: mult_le_0_iff)
  have c: "0 < paperWidth (PAPER_FORMATS f) \<and> 0 < paperHeight (PAPER_FORMATS f)"
    by (cases f) simp_all
  have d: "ar \<le> 0 \<and> 30 < pageWidth \<and> 55 < pageHeight \<longrightarrow>
      imgHeight (placementGuides pageWidth pageHeight ar) = pageHeight - 2 * 15 - 25 \<and>
      imgWidth (placementGuides pageWidth pageHeight ar) = (pageHeight - 2 * 15 - 25) * ar \<and>
      imgWidth (placementGuides pageWidth pageHeight ar) \<le> 0"
    using neg [of "pageWidth - 2 * 15" "pageHeight - 2 * 15 - 25"] np [of "pageHeight - 2 * 15 - 25"]
    by (auto simp: placementGuides_def Let_def)
  have e: "ar \<le> 0 \<and> 10 < pageWidth \<and> 10 < pageHeight \<longrightarrow>
      imgHeight (placementCentered pageWidth pageHeight ar) = pageHeight - 2 * 5 \<and>
      imgWidth (placementCentered pageWidth pageHeight ar) = (pageHeight - 2 * 5) * ar \<and>
      imgWidth (placementCentered pageWidth pageHeight ar) \<le> 0"
    using neg [of "pageWidth - 2 * 5" "pageHeight - 2 * 5"] np [of "pageHeight - 2 * 5"]
    by (auto simp: placementCentered_def Let_def)
  have f: "ar \<le> 0 \<and> 20 < pageWidth \<and> 40 < pageHeight \<longrightarrow>
      imgHeight (placementBasic pageWidth pageHeight ar) = pageHeight - 2 * 10 - 20 \<and>
      imgWidth (placementBasic pageWidth pageHeight ar) = (pageHeight - 2 * 10 - 20) * ar \<and>
      imgWidth (placementBasic pageWidth pageHeight ar) \<le> 0"
    using neg [of "pageWidth - 2 * 10" "pageHeight - 2 * 10"] np [of "pageHeight - 2 * 10 - 20"]
    by (auto simp: placementBasic_def Let_def)
  have g: "previewData st \<noteq> [] \<and> (\<forall>p \<in> set (previewData st). \<not> emptyRaster p) \<and>
    imageData st = Some img \<and> 0 < width img \<and> 0 < height img \<and>
    horizontal (gridConfig st) \<noteq> 0 \<and> vertical (gridConfig st) \<noteq> 0 \<and>
    aspectRatio img (gridConfig st) \<le> 0 \<longrightarrow>
      toasts (fst (generatePDF_guides st)) = toasts st @ [ToastSuccess PdfGenerated] \<and>
      map (map snd \<circ> imagesOf) (savedPages (snd (generatePDF_guides st)))
        = map (\<lambda>piece. [placementGuides
                 (fst (pageSize (PAPER_FORMATS (paperFormat st)) (orientation st)))
                 (snd (pageSize (PAPER_FORMATS (paperFormat st)) (orientation st)))
                 (aspectRatio img (gridConfig st))]) (previewData st)"
  proof (intro impI, elim conjE)
    assume a: "previewData st \<noteq> []" "\<forall>p \<in> set (previewData st). \<not> emptyRaster p"
      "imageData st = Some img"
    show "toasts (fst (generatePDF_guides st)) = toasts st @ [ToastSuccess PdfGenerated] \<and>
      map (map snd \<circ> imagesOf) (savedPages (snd (generatePDF_guides st)))
        = map (\<lambda>piece. [placementGuides
                 (fst (pageSize (PAPER_FORMATS (paperFormat st)) (orientation st)))
                 (snd (pageSize (PAPER_FORMATS (paperFormat st)) (orientation st)))
                 (aspectRatio img (gridConfig st))]) (previewData st)"
      unfolding generatePDF_guides_saved [OF a(1) a(3) a(2)]
      by (intro conjI nth_equalityI) (use a(2) in \<open>simp_all add: pageGuides_drawn\<close>)
  qed
  show ?thesis
    using c d e f g by blast
qed

theorem layout_not_validated_witness:
  "(- 1 :: real) \<le> 0 \<and> (30 :: real) < 210 \<and> (55 :: real) < 297 \<and> (10 :: real) < 210 \<and>
   (10 :: real) < 297 \<and> (20 :: real) < 210 \<and> (40 :: real) < 297 \<and>
   placementGuides 210 297 (- 1) = \<lparr>imgX = 226, imgY = 30, imgWidth = - 242, imgHeight = 242\<rparr> \<and>
   imgWidth (placementCentered 210 297 (- 1)) = - 287 \<and>
   imgWidth (placementBasic 210 297 (- 1)) = - 257 \<and>
   map emptyRaster (previewData (onChangeHorizontal (Num (- 2)) (generatePreview truncPx exampleState)))
     = [False, False] \<and>
   imageData (onChangeHorizontal (Num (- 2)) (generatePreview truncPx exampleState))
     = Some \<lparr>width = 1000, height = 500\<rparr> \<and>
   gridConfig (onChangeHorizontal (Num (- 2)) (generatePreview truncPx exampleState))
     = \<lparr>horizontal = - 2, vertical = 1\<rparr> \<and>
   aspectRatio \<lparr>width = 1000, height = 500\<rparr> \<lparr>horizontal = - 2, vertical = 1\<rparr> = - 1 \<and>
   toasts (fst (generatePDF_guides
      (onChangeHorizontal (Num (- 2)) (generatePreview truncPx exampleState))))
     = [ToastSuccess PreviewGenerated, ToastSuccess PdfGenerated]"
proof -
  note t = layout_not_validated [of A4 "- 1" 210 297
      "onChangeHorizontal (Num (- 2)) (generatePreview truncPx exampleState)"
      "\<lparr>width = 1000, height = 500\<rparr>"]
  have s: "previewData (onChangeHorizontal (Num (- 2)) (generatePreview truncPx exampleState)) \<noteq> []"
    "\<forall>p \<in> set (previewData (onChangeHorizontal (Num (- 2)) (generatePreview truncPx exampleState))).
        \<not> emptyRaster p"
    "map emptyRaster (previewData (onChangeHorizontal (Num (- 2)) (generatePreview truncPx exampleState)))
     = [False, False]"
    "imageData (onChangeHorizontal (Num (- 2)) (generatePreview truncPx exampleState))
     = Some \<lparr>width = 1000, height = 500\<rparr>"
    "gridConfig (onChangeHorizontal (Num (- 2)) (generatePreview truncPx exampleState))
     = \<lparr>horizontal = - 2, vertical = 1\<rparr>"
    "toasts (onChangeHorizontal (Num (- 2)) (generatePreview truncPx exampleState))
     = [ToastSuccess PreviewGenerated]"
    by (simp_all add: example_simps emptyRaster_def)
  have a: "aspectRatio \<lparr>width = 1000, height = 500\<rparr> \<lparr>horizontal = - 2, vertical = 1\<rparr> = - 1"
    by (simp add: aspectRatio_def)
  have "toasts (fst (generatePDF_guides
      (onChangeHorizontal (Num (- 2)) (generatePreview truncPx exampleState))))
     = [ToastSuccess PreviewGenerated, ToastSuccess PdfGenerated]"
    using t s a by simp
  moreover have "placementGuides 210 297 (- 1) = \<lparr>imgX = 226, imgY = 30, imgWidth = - 242, imgHeight = 242\<rparr>"
    "imgWidth (placementCentered 210 297 (- 1)) = - 287"
    "imgWidth (placementBasic 210 297 (- 1)) = - 257"
    by (simp_all add: placementGuides_def placementCentered_def placementBasic_def)
  ultimately show ?thesis
    using s a by simp
qed




text \<open>
  The error path on an example: a 1 x 1 image on the 2 x 2 grid gives pieces without
  pixels, and the export throws instead of saving.
\<close>

lemma export_example_throws:
  "previewData (generatePreview truncPx
      (exampleState\<lparr>imageData := Some \<lparr>width = 1, height = 1\<rparr>,
                    gridConfig := \<lparr>horizontal = 2, vertical = 2\<rparr>\<rparr>)) \<noteq> [] \<and>
   snd (generatePDF_guides (generatePreview truncPx
      (exampleState\<lparr>imageData := Some \<lparr>width = 1, height = 1\<rparr>,
                    gridConfig := \<lparr>horizontal = 2, vertical = 2\<rparr>\<rparr>))) = ImageError"
  by (simp add: example_simps generatePDF_guides_def pageGuides_def addImage_def emptyRaster_def
      pageLoop.simps pageSize_def)

end
